theory Spec2Isabelle
  imports Complex_Main "HOL-Library.Char_ord" "HOL-Library.List_Lexorder"
    "HOL-Library.Multiset" "HOL-Library.AList"
begin

section \<open>Tensors, errors and the framework operations the layers call\<close>

text \<open>
  Scalars are modelled as real numbers (rounding of floating point is not part of the
  model). A feature tensor has shape \<open>[num_items, feature_dim]\<close>: it is kept with its
  feature width, so that a tensor of zero rows still has a shape.
\<close>

datatype tensor = Tensor (ncols: nat) (rows: "real list list")

definition shape :: "tensor \<Rightarrow> nat list" where
  "shape t = [length (rows t), ncols t]"

definition wf_tensor :: "tensor \<Rightarrow> bool" where
  "wf_tensor t = list_all (\<lambda>r. length r = ncols t) (rows t)"

text \<open>Every raise of the two source files, and the failures of the operations they call.\<close>

datatype error =
    ContextNotSupported
  | InvalidEdgeInputShape
  | UnsupportedCombineType
  | UnsupportedReduceType
  | IncorrectReceiver
  | PoolingConfigMismatch
  | ReceiverFeatureNotNone
  | SenderEdgeFeatureNotNone
  | SenderNodeFeatureMissing
  | SkipFeatureKeyError
  | ResidualShapeMismatch
  | LookupKeyError
  | OpShapeError
  | AmbiguousTruthValue
  | AssertionFailed
  | ArgumentTypeError
  | UnknownActivation
  | AttributeMissing

definition bind :: "error + 'a \<Rightarrow> ('a \<Rightarrow> error + 'b) \<Rightarrow> error + 'b" where
  "bind m f = (case m of Inl e \<Rightarrow> Inl e | Inr x \<Rightarrow> f x)"

definition vadd :: "real list \<Rightarrow> real list \<Rightarrow> real list" where
  "vadd x y = map2 (+) x y"

definition zeros :: "nat \<Rightarrow> real list" where
  "zeros n = replicate n 0"

text \<open>\<open>tf.add\<close> of two tensors of the same shape (the only case the layers rely on).\<close>

definition tensor_add :: "tensor \<Rightarrow> tensor \<Rightarrow> error + tensor" where
  "tensor_add a b =
     (if shape a = shape b then Inr (Tensor (ncols a) (map2 vadd (rows a) (rows b)))
      else Inl OpShapeError)"

text \<open>\<open>tf.math.add_n\<close>: needs at least one input, and all inputs of one shape.\<close>

fun add_n_from :: "tensor \<Rightarrow> tensor list \<Rightarrow> error + tensor" where
  "add_n_from acc [] = Inr acc"
| "add_n_from acc (t # ts) = bind (tensor_add acc t) (\<lambda>s. add_n_from s ts)"

definition add_n :: "tensor list \<Rightarrow> error + tensor" where
  "add_n ts = (case ts of [] \<Rightarrow> Inl OpShapeError | t # ts' \<Rightarrow> add_n_from t ts')"

text \<open>\<open>tf.concat(values, axis=-1)\<close>: needs at least one input, and one row count.\<close>

definition concat_pair :: "tensor \<Rightarrow> tensor \<Rightarrow> error + tensor" where
  "concat_pair a b =
     (if length (rows a) = length (rows b)
      then Inr (Tensor (ncols a + ncols b) (map2 (@) (rows a) (rows b)))
      else Inl OpShapeError)"

fun concat_from :: "tensor \<Rightarrow> tensor list \<Rightarrow> error + tensor" where
  "concat_from acc [] = Inr acc"
| "concat_from acc (t # ts) = bind (concat_pair acc t) (\<lambda>s. concat_from s ts)"

definition concat_last :: "tensor list \<Rightarrow> error + tensor" where
  "concat_last ts = (case ts of [] \<Rightarrow> Inl OpShapeError | t # ts' \<Rightarrow> concat_from t ts')"

text \<open>
  Modelled from the spec: \<open>tfgnn.combine_values\<close> is not among the source files. The
  spec: "\<open>sum\<close> elementwise-adds all entries (all must already share \<open>units\<close> width);
  \<open>concat\<close> concatenates along the feature axis"; any other name is unsupported.
\<close>

definition combine_values :: "tensor list \<Rightarrow> string \<Rightarrow> error + tensor" where
  "combine_values ts combine_type =
     (if combine_type = ''sum'' then add_n ts
      else if combine_type = ''concat'' then concat_last ts
      else Inl UnsupportedCombineType)"

text \<open>
  \<open>tf.keras.layers.Dense(units, use_bias=False)\<close> with kernel \<open>W\<close> of shape
  \<open>[in_dim, units]\<close>: each row is multiplied by the kernel; an input whose feature width
  is not the kernel's \<open>in_dim\<close> is rejected.
\<close>

definition vec_mat :: "real list \<Rightarrow> real list list \<Rightarrow> nat \<Rightarrow> real list" where
  "vec_mat x W units = map (\<lambda>j. sum_list (map2 (\<lambda>a r. a * r ! j) x W)) [0..<units]"

definition dense :: "real list list \<Rightarrow> nat \<Rightarrow> tensor \<Rightarrow> error + tensor" where
  "dense W units t =
     (if ncols t = length W \<and> wf_tensor t
      then Inr (Tensor units (map (\<lambda>r. vec_mat r W units) (rows t)))
      else Inl OpShapeError)"

text \<open>
  The framework around a layer call. \<open>learning_phase\<close> is the ambient training mode
  that a Keras layer falls back to when its call gets no \<open>training\<close> argument;
  \<open>drop\<close> is what an active dropout of a given rate does to a tensor (its random mask
  included); \<open>tensor_truth\<close> is the truth value Python's \<open>if\<close> gets from a
  tensor; \<open>activation_table\<close> holds the activation functions that
  \<open>tf.keras.activations.get\<close> knows by name.
\<close>

record keras_env =
  learning_phase :: bool
  drop :: "real \<Rightarrow> tensor \<Rightarrow> tensor"
  tensor_truth :: "tensor \<Rightarrow> error + bool"
  activation_table :: "string \<Rightarrow> (real \<Rightarrow> real) option"

text \<open>
  \<open>tf.keras.layers.Dropout(rate)(x, training=...)\<close>: the explicit flag decides when it
  is given; without it (\<open>None\<close>) the ambient mode decides. A dropout of rate 0
  returns its input in either mode.
\<close>

definition Dropout :: "keras_env \<Rightarrow> real \<Rightarrow> bool option \<Rightarrow> tensor \<Rightarrow> tensor" where
  "Dropout env rate training x =
     (let active = (case training of Some flag \<Rightarrow> flag | None \<Rightarrow> learning_phase env)
      in if active \<and> rate \<noteq> 0 then drop env rate x else x)"

definition map_tensor :: "(real \<Rightarrow> real) \<Rightarrow> tensor \<Rightarrow> tensor" where
  "map_tensor f t = Tensor (ncols t) (map (map f) (rows t))"

text \<open>
  \<open>result += bias\<close> for a result of shape \<open>[n, w]\<close> and a bias of shape \<open>[k]\<close>, with
  the broadcasting rule of the addition: the widths are equal, or one of them is 1.
\<close>

definition bias_add :: "tensor \<Rightarrow> real list \<Rightarrow> error + tensor" where
  "bias_add t b =
     (if length b = ncols t then Inr (Tensor (ncols t) (map (\<lambda>r. vadd r b) (rows t)))
      else if length b = 1 then Inr (Tensor (ncols t) (map (map (\<lambda>x. x + hd b)) (rows t)))
      else if ncols t = 1
        then Inr (Tensor (length b) (map (\<lambda>r. map (\<lambda>y. hd r + y) b) (rows t)))
      else Inl OpShapeError)"

text \<open>\<open>tf.math.l2_normalize(x, axis=1)\<close>: \<open>x / sqrt(max(sum(x**2), 1e-12))\<close> per row.\<close>

definition l2_normalize_row :: "real list \<Rightarrow> real list" where
  "l2_normalize_row r =
     map (\<lambda>x. x / sqrt (max (sum_list (map (\<lambda>y. y * y) r)) (1 / 10 ^ 12))) r"

definition l2_normalize_axis1 :: "tensor \<Rightarrow> tensor" where
  "l2_normalize_axis1 t = Tensor (ncols t) (map l2_normalize_row (rows t))"

text \<open>
  A feature bag: a single tensor or a mapping from feature names to tensors. A Python
  dict is an association list in iteration order, with distinct keys.
\<close>

datatype field_or_fields = Field tensor | Fields "(string \<times> tensor) list"

text \<open>Truth value of a feature bag in a Python \<open>if\<close>: a dict is true when not empty.\<close>

definition py_truth :: "keras_env \<Rightarrow> field_or_fields \<Rightarrow> error + bool" where
  "py_truth env x = (case x of Fields kv \<Rightarrow> Inr (kv \<noteq> []) | Field t \<Rightarrow> tensor_truth env t)"

section \<open>Layer configurations\<close>

text \<open>
  The values a configuration dict holds, and the part of a layer that the Keras base
  class \<open>tf.keras.layers.Layer\<close> keeps and writes to its config: name, trainable,
  dtype.
\<close>

datatype incident_node_tag = SOURCE | TARGET

datatype config_value =
    VNone
  | VBool bool
  | VNat nat
  | VReal real
  | VStr string
  | VTag incident_node_tag
  | VCallable "real \<Rightarrow> real"
  | VStrs "string list"

type_synonym config = "(string \<times> config_value) list"

record layer_base =
  name :: string
  trainable :: bool
  dtype :: string

definition HIDDEN_STATE :: string where
  "HIDDEN_STATE = ''hidden_state''"

text \<open>\<open>dict(**a, k1=v1, ...)\<close>: a key given twice is a \<open>TypeError\<close>.\<close>

definition dict_merge :: "config \<Rightarrow> config \<Rightarrow> error + config" where
  "dict_merge a b =
     (if list_ex (\<lambda>k. k \<in> set (map fst a)) (map fst b) then Inl ArgumentTypeError
      else Inr (a @ b))"

text \<open>\<open>d.pop(k, None)\<close>: the value (or \<open>None\<close>) and the dict without the key.\<close>

definition dict_pop :: "config \<Rightarrow> string \<Rightarrow> config_value \<times> config" where
  "dict_pop d k =
     (case map_of d k of None \<Rightarrow> (VNone, d)
      | Some v \<Rightarrow> (v, filter (\<lambda>p. fst p \<noteq> k) d))"

text \<open>
  Binding the keyword arguments of a call \<open>cls(**config)\<close>: a named parameter takes
  the entry of its name or its default; a required one that is missing is a
  \<open>TypeError\<close>; the entries that name no parameter go on as \<open>**kwargs\<close>.
\<close>

definition arg_or :: "config \<Rightarrow> string \<Rightarrow> config_value \<Rightarrow> config_value" where
  "arg_or kw k dflt = (case map_of kw k of None \<Rightarrow> dflt | Some v \<Rightarrow> v)"

definition arg_required :: "config \<Rightarrow> string \<Rightarrow> error + config_value" where
  "arg_required kw k = (case map_of kw k of None \<Rightarrow> Inl ArgumentTypeError | Some v \<Rightarrow> Inr v)"

definition rest_kwargs :: "string list \<Rightarrow> config \<Rightarrow> config" where
  "rest_kwargs named kw = filter (\<lambda>p. fst p \<notin> set named) kw"

fun as_nat :: "config_value \<Rightarrow> error + nat" where
  "as_nat (VNat n) = Inr n"
| "as_nat _ = Inl ArgumentTypeError"

fun as_bool :: "config_value \<Rightarrow> error + bool" where
  "as_bool (VBool b) = Inr b"
| "as_bool _ = Inl ArgumentTypeError"

fun as_real :: "config_value \<Rightarrow> error + real" where
  "as_real (VReal r) = Inr r"
| "as_real _ = Inl ArgumentTypeError"

fun as_str :: "config_value \<Rightarrow> error + string" where
  "as_str (VStr s) = Inr s"
| "as_str _ = Inl ArgumentTypeError"

fun as_tag :: "config_value \<Rightarrow> error + incident_node_tag" where
  "as_tag (VTag t) = Inr t"
| "as_tag _ = Inl ArgumentTypeError"

fun as_strs :: "config_value \<Rightarrow> error + string list" where
  "as_strs (VStrs ss) = Inr ss"
| "as_strs _ = Inl ArgumentTypeError"

text \<open>
  \<open>tf.keras.layers.Layer.__init__(**kwargs)\<close> and \<open>Layer.get_config\<close>: the base class
  takes \<open>name\<close>, \<open>trainable\<close> and \<open>dtype\<close> and rejects a keyword it does not know.
\<close>

definition layer_init :: "string \<Rightarrow> config \<Rightarrow> error + layer_base" where
  "layer_init default_name kwargs =
     (if rest_kwargs [''name'', ''trainable'', ''dtype''] kwargs \<noteq> [] then Inl ArgumentTypeError
      else
        bind (as_str (arg_or kwargs ''name'' (VStr default_name))) (\<lambda>n.
        bind (as_bool (arg_or kwargs ''trainable'' (VBool True))) (\<lambda>t.
        bind (as_str (arg_or kwargs ''dtype'' (VStr ''float32''))) (\<lambda>d.
        Inr \<lparr>name = n, trainable = t, dtype = d\<rparr>))))"

definition layer_get_config :: "layer_base \<Rightarrow> config" where
  "layer_get_config b =
     [(''name'', VStr (name b)), (''trainable'', VBool (trainable b)),
      (''dtype'', VStr (dtype b))]"

text \<open>
  \<open>tf.keras.activations.get(identifier)\<close>: \<open>None\<close> is the identity, a name is looked
  up, a callable is taken as it is.
\<close>

fun activations_get :: "keras_env \<Rightarrow> config_value \<Rightarrow> error + (real \<Rightarrow> real)" where
  "activations_get env VNone = Inr (\<lambda>x. x)"
| "activations_get env (VStr nm) =
     (case activation_table env nm of None \<Rightarrow> Inl UnknownActivation | Some f \<Rightarrow> Inr f)"
| "activations_get env (VCallable f) = Inr f"
| "activations_get env _ = Inl UnknownActivation"

section \<open>GraphSAGENextState\<close>

text \<open>
  The layer as \<open>__init__\<close> leaves it, with the kernel of its \<open>Dense\<close> self-transform
  and the bias that \<open>build\<close> creates. An activation is a function applied to every
  entry of a tensor.
\<close>

record graph_sage_next_state =
  ns_units :: nat
  ns_use_bias :: bool
  ns_dropout_rate :: real
  ns_feature_name :: string
  ns_l2_normalize :: bool
  ns_combine_type :: string
  ns_activation :: "real \<Rightarrow> real"
  ns_base :: layer_base
  ns_self_kernel :: "real list list"
  ns_bias_term :: "real list option"
  ns_built :: bool

text \<open>
  A static shape as \<open>build\<close> sees it: \<open>None\<close> when the rank is unknown, else the list
  of dimensions, each known or not.
\<close>

type_synonym tensor_shape = "nat option list option"

definition shape_rank :: "tensor_shape \<Rightarrow> nat option" where
  "shape_rank s = map_option length s"

definition invalid_edge_shape :: "tensor_shape \<Rightarrow> bool" where
  "invalid_edge_shape s =
     (case s of None \<Rightarrow> True
      | Some ds \<Rightarrow> length ds \<noteq> 2 \<or> ds ! 1 = None)"

definition edge_width :: "tensor_shape \<Rightarrow> nat" where
  "edge_width s = (case s of Some [_, Some w] \<Rightarrow> w | _ \<Rightarrow> 0)"

text \<open>
  \<open>GraphSAGENextState.build\<close>: creates the zero-initialised bias from the input
  shapes of the edge sets. Nothing is created without \<open>use_bias\<close>.
\<close>

definition build :: "graph_sage_next_state \<Rightarrow> (string \<times> tensor_shape) list
    \<Rightarrow> error + graph_sage_next_state" where
  "build st edge_inputs_shape_dict =
     (if ns_use_bias st then
        (if ns_combine_type st = ''sum''
         then Inr (st\<lparr>ns_bias_term := Some (zeros (ns_units st))\<rparr>)
         else if ns_combine_type st = ''concat'' then
           (let edge_input_shapes = map snd edge_inputs_shape_dict in
            if list_ex invalid_edge_shape edge_input_shapes
            then Inl InvalidEdgeInputShape
            else Inr (st\<lparr>ns_bias_term :=
                   Some (zeros (ns_units st + sum_list (map edge_width edge_input_shapes)))\<rparr>))
         else Inl UnsupportedCombineType)
      else Inr st)"

text \<open>
  \<open>GraphSAGENextState.call\<close>. The edge inputs are sorted by edge set name (the keys
  of a dict are distinct, so the tuples are never compared on their tensors).
\<close>

definition call :: "keras_env \<Rightarrow> graph_sage_next_state
    \<Rightarrow> tensor \<times> (string \<times> tensor) list \<times> field_or_fields \<Rightarrow> bool option
    \<Rightarrow> error + (string \<times> tensor) list" where
  "call env st inputs training =
     (case inputs of (old_node_state, edge_inputs_dict, unused_context_state) \<Rightarrow>
      bind (py_truth env unused_context_state) (\<lambda>has_context.
      if has_context then Inl ContextNotSupported else
      bind (dense (ns_self_kernel st) (ns_units st)
              (Dropout env (ns_dropout_rate st) training old_node_state)) (\<lambda>self_transformed.
      bind (combine_values (self_transformed # map snd (sort_key fst edge_inputs_dict))
              (ns_combine_type st)) (\<lambda>combined.
      bind (if ns_use_bias st
            then (case ns_bias_term st of None \<Rightarrow> Inl AttributeMissing
                  | Some b \<Rightarrow> bias_add combined b)
            else Inr combined) (\<lambda>biased.
      let activated = map_tensor (ns_activation st) biased;
          result = (if ns_l2_normalize st then l2_normalize_axis1 activated else activated)
      in Inr [(ns_feature_name st, result)])))))"

section \<open>The graph tensor and its broadcast and pool operations\<close>

text \<open>
  Modelled from the spec: the graph tensor, \<open>tfgnn.broadcast_node_to_edges\<close> and
  \<open>tfgnn.pool_edges_to_node\<close> are not among the source files. The spec: an edge set
  carries "an adjacency relation mapping each edge to two endpoint roles (conventionally
  SOURCE and TARGET) in specific node sets"; broadcast "replicates a node/context feature
  to every incident edge at the given endpoint"; pool "reduces per-edge values to the
  receiver node using a named registered reduction operator; supported names include at
  least \<open>sum\<close>, \<open>mean\<close>, \<open>max_no_inf\<close>; unregistered names fail with a configuration
  error", with "mean-of-zero-inputs defined as zero".
\<close>

fun reverse_tag :: "incident_node_tag \<Rightarrow> incident_node_tag" where
  "reverse_tag SOURCE = TARGET"
| "reverse_tag TARGET = SOURCE"

record edge_set =
  source_name :: string
  target_name :: string
  source_index :: "nat list"
  target_index :: "nat list"

record node_set =
  total_size :: nat
  features :: "(string \<times> tensor) list"

record graph_tensor =
  node_sets :: "(string \<times> node_set) list"
  edge_sets :: "(string \<times> edge_set) list"

definition edge_total_size :: "edge_set \<Rightarrow> nat" where
  "edge_total_size e = length (source_index e)"

fun node_set_name :: "edge_set \<Rightarrow> incident_node_tag \<Rightarrow> string" where
  "node_set_name e SOURCE = source_name e"
| "node_set_name e TARGET = target_name e"

fun endpoint_index :: "edge_set \<Rightarrow> incident_node_tag \<Rightarrow> nat list" where
  "endpoint_index e SOURCE = source_index e"
| "endpoint_index e TARGET = target_index e"

text \<open>\<open>d[k]\<close> on a Python dict: a missing key raises \<open>KeyError\<close>.\<close>

definition dict_get :: "(string \<times> 'a) list \<Rightarrow> string \<Rightarrow> error + 'a" where
  "dict_get d k = (case map_of d k of None \<Rightarrow> Inl LookupKeyError | Some v \<Rightarrow> Inr v)"

definition broadcast_node_to_edges ::
    "graph_tensor \<Rightarrow> string \<Rightarrow> incident_node_tag \<Rightarrow> tensor \<Rightarrow> error + tensor" where
  "broadcast_node_to_edges graph edge_set_name tag feature_value =
     bind (dict_get (edge_sets graph) edge_set_name) (\<lambda>e.
       if list_all (\<lambda>i. i < length (rows feature_value)) (endpoint_index e tag)
       then Inr (Tensor (ncols feature_value)
                  (map (\<lambda>i. rows feature_value ! i) (endpoint_index e tag)))
       else Inl OpShapeError)"

definition vsum :: "nat \<Rightarrow> real list list \<Rightarrow> real list" where
  "vsum w rs = foldr vadd rs (zeros w)"

definition vmax :: "real list \<Rightarrow> real list \<Rightarrow> real list" where
  "vmax x y = map2 max x y"

definition reduce_rows :: "string \<Rightarrow> (nat \<Rightarrow> real list list \<Rightarrow> real list) option" where
  "reduce_rows reduce_type =
     (if reduce_type = ''sum'' then Some vsum
      else if reduce_type = ''mean''
        then Some (\<lambda>w rs. if rs = [] then zeros w
                           else map (\<lambda>x. x / real (length rs)) (vsum w rs))
      else if reduce_type = ''max_no_inf''
        then Some (\<lambda>w rs. case rs of [] \<Rightarrow> zeros w | r # rs' \<Rightarrow> foldr vmax rs' r)
      else None)"

definition rows_at :: "nat list \<Rightarrow> real list list \<Rightarrow> nat \<Rightarrow> real list list" where
  "rows_at idx rs v = map snd (filter (\<lambda>p. fst p = v) (zip idx rs))"

definition pool_edges_to_node ::
    "graph_tensor \<Rightarrow> string \<Rightarrow> incident_node_tag \<Rightarrow> string \<Rightarrow> tensor \<Rightarrow> error + tensor" where
  "pool_edges_to_node graph edge_set_name tag reduce_type feature_value =
     bind (dict_get (edge_sets graph) edge_set_name) (\<lambda>e.
     bind (dict_get (node_sets graph) (node_set_name e tag)) (\<lambda>receiver.
       case reduce_rows reduce_type of
         None \<Rightarrow> Inl UnsupportedReduceType
       | Some reduce \<Rightarrow>
           if length (rows feature_value) = length (endpoint_index e tag)
              \<and> list_all (\<lambda>i. i < total_size receiver) (endpoint_index e tag)
           then Inr (Tensor (ncols feature_value)
                  (map (\<lambda>v. reduce (ncols feature_value)
                              (rows_at (endpoint_index e tag) (rows feature_value) v))
                       [0..<total_size receiver]))
           else Inl OpShapeError))"

section \<open>The two GraphSAGE convolutions\<close>

record graph_sage_aggregator_conv =
  ac_receiver_tag :: incident_node_tag
  ac_reduce_type :: string
  ac_sender_node_feature :: string
  ac_units :: nat
  ac_dropout_rate :: real
  ac_base :: layer_base
  ac_transform_neighbor_kernel :: "real list list"

text \<open>\<open>GraphSAGEAggregatorConv.convolve\<close>: broadcast, dropout, pool, transform.\<close>

definition aggregator_convolve :: "keras_env \<Rightarrow> graph_sage_aggregator_conv
    \<Rightarrow> tensor option \<Rightarrow> (tensor \<Rightarrow> error + tensor)
    \<Rightarrow> (tensor \<Rightarrow> string \<Rightarrow> error + tensor) \<Rightarrow> bool \<Rightarrow> error + tensor" where
  "aggregator_convolve env conv sender_node_input broadcast_from_sender_node
      pool_to_receiver training =
     (case sender_node_input of
        None \<Rightarrow> Inl AssertionFailed
      | Some x \<Rightarrow>
          bind (broadcast_from_sender_node x) (\<lambda>result.
          bind (pool_to_receiver (Dropout env (ac_dropout_rate conv) (Some training) result)
                  (ac_reduce_type conv)) (\<lambda>result.
          dense (ac_transform_neighbor_kernel conv) (ac_units conv) result)))"

record graph_sage_pooling_conv =
  pc_receiver_tag :: incident_node_tag
  pc_sender_node_feature :: string
  pc_units :: nat
  pc_hidden_units :: nat
  pc_reduce_type :: string
  pc_use_bias :: bool
  pc_dropout_rate :: real
  pc_activation :: "real \<Rightarrow> real"
  pc_base :: layer_base
  pc_pooling_kernel :: "real list list"
  pc_pooling_bias :: "real list"
  pc_transform_neighbor_kernel :: "real list list"

text \<open>
  The hidden layer \<open>Dense(hidden_units, use_bias=..., activation=...)\<close> of the pooling
  convolution.
\<close>

definition pooling_transform_fn :: "graph_sage_pooling_conv \<Rightarrow> tensor \<Rightarrow> error + tensor" where
  "pooling_transform_fn conv x =
     bind (dense (pc_pooling_kernel conv) (pc_hidden_units conv) x) (\<lambda>h.
     bind (if pc_use_bias conv then bias_add h (pc_pooling_bias conv) else Inr h) (\<lambda>h.
     Inr (map_tensor (pc_activation conv) h)))"

text \<open>
  \<open>GraphSAGEPoolingConv.convolve\<close>: broadcast, dropout, hidden layer, pool,
  transform.
\<close>

definition pooling_convolve :: "keras_env \<Rightarrow> graph_sage_pooling_conv
    \<Rightarrow> tensor option \<Rightarrow> (tensor \<Rightarrow> error + tensor)
    \<Rightarrow> (tensor \<Rightarrow> string \<Rightarrow> error + tensor) \<Rightarrow> bool \<Rightarrow> error + tensor" where
  "pooling_convolve env conv sender_node_input broadcast_from_sender_node
      pool_to_receiver training =
     (case sender_node_input of
        None \<Rightarrow> Inl AssertionFailed
      | Some x \<Rightarrow>
          bind (broadcast_from_sender_node x) (\<lambda>result.
          bind (pooling_transform_fn conv
                  (Dropout env (pc_dropout_rate conv) (Some training) result)) (\<lambda>result.
          bind (pool_to_receiver result (pc_reduce_type conv)) (\<lambda>result.
          dense (pc_transform_neighbor_kernel conv) (pc_units conv) result))))"

section \<open>GCNGraphSAGENodeSetUpdate\<close>

record gcn_graph_sage_node_set_update =
  gcn_edge_set_names :: "string list"
  gcn_receiver_tag :: incident_node_tag
  gcn_reduce_type :: string
  gcn_self_node_feature :: string
  gcn_sender_node_feature :: string
  gcn_units :: nat
  gcn_dropout_rate :: real
  gcn_activation :: "real \<Rightarrow> real"
  gcn_use_bias :: bool
  gcn_share_weights :: bool
  gcn_add_self_loop :: bool
  gcn_base :: layer_base
  gcn_transform_edge_fn_dict :: "(string \<times> real list list) list"
  gcn_node_transform_fn :: "real list list option"
  gcn_bias_term :: "real list option"

text \<open>
  The in-degree tensors: \<open>tf.squeeze\<close> removes every dimension of size 1, so its result
  on a tensor of shape \<open>[n, w]\<close> is a scalar, a vector or the tensor itself.
\<close>

datatype squeezed = SScalar real | SVector "real list" | SMatrix tensor

definition squeeze :: "tensor \<Rightarrow> squeezed" where
  "squeeze t =
     (if length (rows t) = 1 \<and> ncols t = 1 then SScalar (hd (hd (rows t)))
      else if ncols t = 1 then SVector (map hd (rows t))
      else if length (rows t) = 1 then SVector (hd (rows t))
      else SMatrix t)"

text \<open>\<open>tf.ones([n, 1])\<close> and \<open>tf.ones(n)\<close>.\<close>

definition ones_column :: "nat \<Rightarrow> tensor" where
  "ones_column n = Tensor 1 (replicate n [1])"

definition ones_vector :: "nat \<Rightarrow> squeezed" where
  "ones_vector n = SVector (replicate n 1)"

text \<open>\<open>tf.math.add_n\<close> on the in-degree tensors: no broadcasting, one shape for all.\<close>

fun squeezed_add :: "squeezed \<Rightarrow> squeezed \<Rightarrow> error + squeezed" where
  "squeezed_add (SScalar a) (SScalar b) = Inr (SScalar (a + b))"
| "squeezed_add (SVector a) (SVector b) =
     (if length a = length b then Inr (SVector (vadd a b)) else Inl OpShapeError)"
| "squeezed_add (SMatrix a) (SMatrix b) = map_sum id SMatrix (tensor_add a b)"
| "squeezed_add _ _ = Inl OpShapeError"

fun squeezed_add_n_from :: "squeezed \<Rightarrow> squeezed list \<Rightarrow> error + squeezed" where
  "squeezed_add_n_from acc [] = Inr acc"
| "squeezed_add_n_from acc (t # ts) =
     bind (squeezed_add acc t) (\<lambda>s. squeezed_add_n_from s ts)"

definition squeezed_add_n :: "squeezed list \<Rightarrow> error + squeezed" where
  "squeezed_add_n ts =
     (case ts of [] \<Rightarrow> Inl OpShapeError | t # ts' \<Rightarrow> squeezed_add_n_from t ts')"

text \<open>
  \<open>total_in_degrees[:, tf.newaxis]\<close>: a slice along the first axis, which a scalar does
  not have; a vector becomes a column.
\<close>

fun slice_newaxis :: "squeezed \<Rightarrow> error + tensor" where
  "slice_newaxis (SVector v) = Inr (Tensor 1 (map (\<lambda>d. [d]) v))"
| "slice_newaxis _ = Inl OpShapeError"

text \<open>
  \<open>tf.math.divide_no_nan(x, y)\<close> for \<open>x\<close> of shape \<open>[n, w]\<close> and a column \<open>y\<close> of
  shape \<open>[m, 1]\<close>: 0 where the denominator is 0; the row counts are equal, or one of
  them is 1 and is broadcast.
\<close>

definition div_no_nan :: "real \<Rightarrow> real \<Rightarrow> real" where
  "div_no_nan x y = (if y = 0 then 0 else x / y)"

definition divide_no_nan :: "tensor \<Rightarrow> tensor \<Rightarrow> error + tensor" where
  "divide_no_nan x y =
     (if ncols y \<noteq> 1 then Inl OpShapeError
      else if length (rows x) = length (rows y)
      then Inr (Tensor (ncols x)
                 (map2 (\<lambda>r d. map (\<lambda>a. div_no_nan a (hd d)) r) (rows x) (rows y)))
      else if length (rows y) = 1
      then Inr (Tensor (ncols x)
                 (map (map (\<lambda>a. div_no_nan a (hd (hd (rows y))))) (rows x)))
      else if length (rows x) = 1
      then Inr (Tensor (ncols x)
                 (map (\<lambda>d. map (\<lambda>a. div_no_nan a (hd d)) (hd (rows x))) (rows y)))
      else Inl OpShapeError)"

text \<open>
  One round of the loop over \<open>self._edge_set_names\<close>. The dropout layer is called
  without a \<open>training\<close> argument.
\<close>

definition gcn_edge_step :: "keras_env \<Rightarrow> gcn_graph_sage_node_set_update \<Rightarrow> graph_tensor
    \<Rightarrow> string \<Rightarrow> string \<Rightarrow> tensor list \<times> squeezed list
    \<Rightarrow> error + tensor list \<times> squeezed list" where
  "gcn_edge_step env layer graph node_set_nm edge_set_name acc =
     (case acc of (pooled_node_states_list, edge_set_in_degrees_list) \<Rightarrow>
      bind (dict_get (edge_sets graph) edge_set_name) (\<lambda>edge_set.
      if node_set_nm \<noteq> node_set_name edge_set (gcn_receiver_tag layer)
      then Inl IncorrectReceiver else
      bind (dict_get (node_sets graph)
              (node_set_name edge_set (reverse_tag (gcn_receiver_tag layer)))) (\<lambda>sender.
      bind (dict_get (features sender) (gcn_sender_node_feature layer)) (\<lambda>sender_node_values.
      bind (if \<not> gcn_share_weights layer
            then dict_get (gcn_transform_edge_fn_dict layer) edge_set_name
            else (case gcn_node_transform_fn layer of
                    None \<Rightarrow> Inl AttributeMissing | Some W \<Rightarrow> Inr W)) (\<lambda>W.
      bind (dense W (gcn_units layer)
              (Dropout env (gcn_dropout_rate layer) None sender_node_values))
        (\<lambda>sender_node_values.
      bind (broadcast_node_to_edges graph edge_set_name
              (reverse_tag (gcn_receiver_tag layer)) sender_node_values)
        (\<lambda>broadcasted_sender_values.
      bind (pool_edges_to_node graph edge_set_name (gcn_receiver_tag layer) ''sum''
              broadcasted_sender_values) (\<lambda>pooled_sender_values.
      if gcn_reduce_type layer = ''mean'' then
        bind (pool_edges_to_node graph edge_set_name (gcn_receiver_tag layer) ''sum''
                (ones_column (edge_total_size edge_set))) (\<lambda>degrees.
        Inr (pooled_node_states_list @ [pooled_sender_values],
             edge_set_in_degrees_list @ [squeeze degrees]))
      else
        Inr (pooled_node_states_list @ [pooled_sender_values],
             edge_set_in_degrees_list)))))))))"

fun gcn_edge_loop :: "keras_env \<Rightarrow> gcn_graph_sage_node_set_update \<Rightarrow> graph_tensor
    \<Rightarrow> string \<Rightarrow> string list \<Rightarrow> tensor list \<times> squeezed list
    \<Rightarrow> error + tensor list \<times> squeezed list" where
  "gcn_edge_loop env layer graph node_set_nm [] acc = Inr acc"
| "gcn_edge_loop env layer graph node_set_nm (edge_set_name # names) acc =
     bind (gcn_edge_step env layer graph node_set_nm edge_set_name acc)
       (gcn_edge_loop env layer graph node_set_nm names)"

text \<open>The self loop: the node's own state, dropped out and transformed.\<close>

definition gcn_self_loop :: "keras_env \<Rightarrow> gcn_graph_sage_node_set_update \<Rightarrow> node_set
    \<Rightarrow> tensor list \<times> squeezed list \<Rightarrow> error + tensor list \<times> squeezed list" where
  "gcn_self_loop env layer receiver acc =
     (case acc of (pooled_node_states_list, edge_set_in_degrees_list) \<Rightarrow>
      if gcn_add_self_loop layer then
        bind (dict_get (features receiver) (gcn_self_node_feature layer)) (\<lambda>self_node_values.
        bind (case gcn_node_transform_fn layer of
                None \<Rightarrow> Inl AttributeMissing | Some W \<Rightarrow> Inr W) (\<lambda>W.
        bind (dense W (gcn_units layer)
                (Dropout env (gcn_dropout_rate layer) None self_node_values))
          (\<lambda>self_node_values.
        Inr (pooled_node_states_list @ [self_node_values],
             if gcn_reduce_type layer = ''mean''
             then edge_set_in_degrees_list @ [ones_vector (total_size receiver)]
             else edge_set_in_degrees_list))))
      else Inr acc)"

text \<open>
  The body of \<open>GCNGraphSAGENodeSetUpdate.call\<close> up to the reduction: the result before
  the bias and the activation.
\<close>

definition gcn_reduce :: "keras_env \<Rightarrow> gcn_graph_sage_node_set_update \<Rightarrow> graph_tensor
    \<Rightarrow> string \<Rightarrow> error + tensor" where
  "gcn_reduce env layer graph node_set_nm =
     (if gcn_reduce_type layer \<notin> set [''sum'', ''mean''] then Inl UnsupportedReduceType else
      bind (gcn_edge_loop env layer graph node_set_nm (gcn_edge_set_names layer) ([], []))
        (\<lambda>acc.
      bind (dict_get (node_sets graph) node_set_nm) (\<lambda>receiver.
      bind (gcn_self_loop env layer receiver acc) (\<lambda>acc.
      case acc of (pooled_node_states_list, edge_set_in_degrees_list) \<Rightarrow>
      bind (add_n pooled_node_states_list) (\<lambda>summed_node_values.
      if gcn_reduce_type layer = ''mean'' then
        bind (squeezed_add_n edge_set_in_degrees_list) (\<lambda>total_in_degrees.
        bind (slice_newaxis total_in_degrees) (\<lambda>column.
        divide_no_nan summed_node_values column))
      else Inr summed_node_values)))))"

text \<open>
  \<open>GCNGraphSAGENodeSetUpdate.call\<close>. Its \<open>training\<close> argument is accepted and not
  used in the body.
\<close>

definition gcn_call :: "keras_env \<Rightarrow> gcn_graph_sage_node_set_update \<Rightarrow> graph_tensor
    \<Rightarrow> string \<Rightarrow> bool option \<Rightarrow> error + (string \<times> tensor) list" where
  "gcn_call env layer graph node_set_nm training =
     bind (gcn_reduce env layer graph node_set_nm) (\<lambda>result.
     bind (if gcn_use_bias layer
           then (case gcn_bias_term layer of
                   None \<Rightarrow> Inl AttributeMissing | Some b \<Rightarrow> bias_add result b)
           else Inr result) (\<lambda>result.
     Inr [(gcn_self_node_feature layer, map_tensor (gcn_activation layer) result)]))"

section \<open>Construction and configuration of the layers\<close>

text \<open>
  The kernels that the \<open>Dense\<close> sublayers of a layer start with are parameters of the
  constructors below; the constructor arguments arrive as the keyword dict of the call.
\<close>

subsection \<open>GraphSAGENextState\<close>

definition next_state_named :: "string list" where
  "next_state_named = [''units'', ''use_bias'', ''dropout_rate'', ''feature_name'',
     ''l2_normalize'', ''combine_type'', ''activation'']"

definition next_state_init :: "keras_env \<Rightarrow> real list list \<Rightarrow> config
    \<Rightarrow> error + graph_sage_next_state" where
  "next_state_init env init_kernel kw =
     bind (arg_required kw ''units'') (\<lambda>units_arg.
     bind (layer_init ''graph_sage_next_state'' (rest_kwargs next_state_named kw)) (\<lambda>base.
     bind (as_bool (arg_or kw ''use_bias'' (VBool True))) (\<lambda>use_bias.
     bind (as_bool (arg_or kw ''l2_normalize'' (VBool True))) (\<lambda>l2.
     bind (as_str (arg_or kw ''combine_type'' (VStr ''sum''))) (\<lambda>combine_type.
     bind (activations_get env (arg_or kw ''activation'' (VStr ''relu''))) (\<lambda>act.
     bind (as_nat units_arg) (\<lambda>units.
     bind (as_str (arg_or kw ''feature_name'' (VStr HIDDEN_STATE))) (\<lambda>feature_name.
     bind (as_real (arg_or kw ''dropout_rate'' (VReal 0))) (\<lambda>dropout_rate.
     Inr \<lparr>ns_units = units, ns_use_bias = use_bias, ns_dropout_rate = dropout_rate,
          ns_feature_name = feature_name, ns_l2_normalize = l2,
          ns_combine_type = combine_type, ns_activation = act, ns_base = base,
          ns_self_kernel = init_kernel, ns_bias_term = None, ns_built = False\<rparr>)))))))))"

definition next_state_get_config :: "graph_sage_next_state \<Rightarrow> error + config" where
  "next_state_get_config st =
     dict_merge
       [(''units'', VNat (ns_units st)),
        (''use_bias'', VBool (ns_use_bias st)),
        (''dropout_rate'', VReal (ns_dropout_rate st)),
        (''feature_name'', VStr (ns_feature_name st)),
        (''l2_normalize'', VBool (ns_l2_normalize st)),
        (''combine_type'', VStr (ns_combine_type st)),
        (''activation'', VCallable (ns_activation st))]
       (layer_get_config (ns_base st))"

text \<open>
  The Keras protocol around \<open>build\<close> and \<open>call\<close>: a layer that is not built yet is
  built from the shapes of the inputs of its first call, and marked as built.
\<close>

definition static_shape :: "tensor \<Rightarrow> tensor_shape" where
  "static_shape t = Some [Some (length (rows t)), Some (ncols t)]"

definition next_state_layer_call :: "keras_env \<Rightarrow> graph_sage_next_state
    \<Rightarrow> tensor \<times> (string \<times> tensor) list \<times> field_or_fields \<Rightarrow> bool option
    \<Rightarrow> graph_sage_next_state \<times> (error + (string \<times> tensor) list)" where
  "next_state_layer_call env st inputs training =
     (if ns_built st then (st, call env st inputs training)
      else
        (case build st (map (\<lambda>p. (fst p, static_shape (snd p))) (fst (snd inputs))) of
           Inl e \<Rightarrow> (st, Inl e)
         | Inr st' \<Rightarrow>
             (st'\<lparr>ns_built := True\<rparr>, call env (st'\<lparr>ns_built := True\<rparr>) inputs training)))"

subsection \<open>The convolutions\<close>

text \<open>
  Modelled from the spec: the base class \<open>AnyToAnyConvolutionBase\<close> is not among the
  source files. The spec: "every parameterized instance must round-trip its full
  constructor configuration (all named options) through a save/restore cycle without
  loss"; the base class is given the four arguments \<open>receiver_tag\<close>,
  \<open>receiver_feature\<close>, \<open>sender_node_feature\<close>, \<open>sender_edge_feature\<close> by the
  subclasses, and its config holds them next to the config of the Keras base class.
  The subclasses pass \<open>receiver_feature=None\<close> and \<open>sender_edge_feature=None\<close>
  themselves, so either key among the remaining keyword arguments is given twice.
\<close>

definition conv_base_init :: "config \<Rightarrow> error + layer_base" where
  "conv_base_init kwargs =
     (if map_of kwargs ''receiver_feature'' \<noteq> None \<or> map_of kwargs ''sender_edge_feature'' \<noteq> None
      then Inl ArgumentTypeError
      else layer_init ''any_to_any_convolution_base'' kwargs)"

definition conv_base_get_config :: "incident_node_tag \<Rightarrow> string \<Rightarrow> layer_base \<Rightarrow> config" where
  "conv_base_get_config receiver_tag sender_node_feature base =
     [(''receiver_tag'', VTag receiver_tag),
      (''receiver_feature'', VNone),
      (''sender_node_feature'', VStr sender_node_feature),
      (''sender_edge_feature'', VNone)] @ layer_get_config base"

text \<open>\<open>kwargs.setdefault("name", default)\<close>.\<close>

definition setdefault_name :: "string \<Rightarrow> config \<Rightarrow> config" where
  "setdefault_name default_name kwargs =
     (case map_of kwargs ''name'' of None \<Rightarrow> kwargs @ [(''name'', VStr default_name)]
      | Some _ \<Rightarrow> kwargs)"

text \<open>The three checks that open both constructors.\<close>

definition check_conv_features :: "config \<Rightarrow> config_value \<Rightarrow> error + string" where
  "check_conv_features kwargs sender_node_feature =
     (if arg_or kwargs ''receiver_feature'' VNone \<noteq> VNone then Inl ReceiverFeatureNotNone
      else if arg_or kwargs ''sender_edge_feature'' VNone \<noteq> VNone
        then Inl SenderEdgeFeatureNotNone
      else if sender_node_feature = VNone then Inl SenderNodeFeatureMissing
      else as_str sender_node_feature)"

definition aggregator_named :: "string list" where
  "aggregator_named = [''receiver_tag'', ''reduce_type'', ''sender_node_feature'', ''units'',
     ''dropout_rate'']"

definition aggregator_init :: "real list list \<Rightarrow> config
    \<Rightarrow> error + graph_sage_aggregator_conv" where
  "aggregator_init init_kernel kw =
     bind (arg_required kw ''receiver_tag'') (\<lambda>receiver_tag_arg.
     bind (arg_required kw ''units'') (\<lambda>units_arg.
     let kwargs = setdefault_name ''graph_sage_aggregator_conv''
                    (rest_kwargs aggregator_named kw) in
     bind (check_conv_features kwargs
             (arg_or kw ''sender_node_feature'' (VStr HIDDEN_STATE))) (\<lambda>sender_node_feature.
     bind (conv_base_init kwargs) (\<lambda>base.
     bind (as_tag receiver_tag_arg) (\<lambda>receiver_tag.
     bind (as_nat units_arg) (\<lambda>units.
     bind (as_real (arg_or kw ''dropout_rate'' (VReal 0))) (\<lambda>dropout_rate.
     bind (as_str (arg_or kw ''reduce_type'' (VStr ''mean''))) (\<lambda>reduce_type.
     Inr \<lparr>ac_receiver_tag = receiver_tag, ac_reduce_type = reduce_type,
          ac_sender_node_feature = sender_node_feature, ac_units = units,
          ac_dropout_rate = dropout_rate, ac_base = base,
          ac_transform_neighbor_kernel = init_kernel\<rparr>))))))))"

definition aggregator_get_config :: "graph_sage_aggregator_conv \<Rightarrow> error + config" where
  "aggregator_get_config conv =
     (let config = conv_base_get_config (ac_receiver_tag conv) (ac_sender_node_feature conv)
                     (ac_base conv);
          popped = dict_pop config ''receiver_feature''
      in if fst popped \<noteq> VNone then Inl AssertionFailed else
         let popped = dict_pop (snd popped) ''sender_edge_feature''
         in if fst popped \<noteq> VNone then Inl AssertionFailed else
            dict_merge (snd popped)
              [(''units'', VNat (ac_units conv)),
               (''dropout_rate'', VReal (ac_dropout_rate conv)),
               (''reduce_type'', VStr (ac_reduce_type conv))])"

definition pooling_named :: "string list" where
  "pooling_named = [''receiver_tag'', ''sender_node_feature'', ''units'', ''hidden_units'',
     ''reduce_type'', ''use_bias'', ''dropout_rate'', ''activation'']"

definition pooling_init :: "keras_env \<Rightarrow> real list list \<Rightarrow> real list \<Rightarrow> real list list
    \<Rightarrow> config \<Rightarrow> error + graph_sage_pooling_conv" where
  "pooling_init env pooling_kernel pooling_bias init_kernel kw =
     bind (arg_required kw ''receiver_tag'') (\<lambda>receiver_tag_arg.
     bind (arg_required kw ''units'') (\<lambda>units_arg.
     bind (arg_required kw ''hidden_units'') (\<lambda>hidden_units_arg.
     let kwargs = setdefault_name ''graph_sage_pooling_conv''
                    (rest_kwargs pooling_named kw) in
     bind (check_conv_features kwargs
             (arg_or kw ''sender_node_feature'' (VStr HIDDEN_STATE))) (\<lambda>sender_node_feature.
     bind (conv_base_init kwargs) (\<lambda>base.
     bind (as_real (arg_or kw ''dropout_rate'' (VReal 0))) (\<lambda>dropout_rate.
     bind (as_nat units_arg) (\<lambda>units.
     bind (as_nat hidden_units_arg) (\<lambda>hidden_units.
     bind (as_bool (arg_or kw ''use_bias'' (VBool True))) (\<lambda>use_bias.
     bind (activations_get env (arg_or kw ''activation'' (VStr ''relu''))) (\<lambda>act.
     bind (as_tag receiver_tag_arg) (\<lambda>receiver_tag.
     bind (as_str (arg_or kw ''reduce_type'' (VStr ''max_no_inf''))) (\<lambda>reduce_type.
     Inr \<lparr>pc_receiver_tag = receiver_tag, pc_sender_node_feature = sender_node_feature,
          pc_units = units, pc_hidden_units = hidden_units, pc_reduce_type = reduce_type,
          pc_use_bias = use_bias, pc_dropout_rate = dropout_rate, pc_activation = act,
          pc_base = base, pc_pooling_kernel = pooling_kernel,
          pc_pooling_bias = pooling_bias,
          pc_transform_neighbor_kernel = init_kernel\<rparr>))))))))))))"

definition pooling_get_config :: "graph_sage_pooling_conv \<Rightarrow> error + config" where
  "pooling_get_config conv =
     (let config = conv_base_get_config (pc_receiver_tag conv) (pc_sender_node_feature conv)
                     (pc_base conv);
          popped = dict_pop config ''receiver_feature''
      in if fst popped \<noteq> VNone then Inl AssertionFailed else
         let popped = dict_pop (snd popped) ''sender_edge_feature''
         in if fst popped \<noteq> VNone then Inl SenderEdgeFeatureNotNone else
            dict_merge (snd popped)
              [(''activation'', VCallable (pc_activation conv)),
               (''units'', VNat (pc_units conv)),
               (''hidden_units'', VNat (pc_hidden_units conv)),
               (''dropout_rate'', VReal (pc_dropout_rate conv)),
               (''use_bias'', VBool (pc_use_bias conv)),
               (''reduce_type'', VStr (pc_reduce_type conv))])"

subsection \<open>GCNGraphSAGENodeSetUpdate\<close>

definition gcn_named :: "string list" where
  "gcn_named = [''edge_set_names'', ''receiver_tag'', ''reduce_type'', ''self_node_feature'',
     ''sender_node_feature'', ''units'', ''dropout_rate'', ''activation'', ''use_bias'',
     ''share_weights'', ''add_self_loop'']"

definition gcn_init :: "keras_env \<Rightarrow> (string \<Rightarrow> real list list) \<Rightarrow> real list list \<Rightarrow> config
    \<Rightarrow> error + gcn_graph_sage_node_set_update" where
  "gcn_init env edge_kernel node_kernel kw =
     bind (arg_required kw ''edge_set_names'') (\<lambda>edge_set_names_arg.
     bind (arg_required kw ''receiver_tag'') (\<lambda>receiver_tag_arg.
     bind (arg_required kw ''units'') (\<lambda>units_arg.
     bind (layer_init ''gcn_graph_sage_node_set_update''
             (setdefault_name ''graph_sage_gcn_update'' (rest_kwargs gcn_named kw))) (\<lambda>base.
     bind (as_str (arg_or kw ''self_node_feature'' (VStr HIDDEN_STATE))) (\<lambda>self_node_feature.
     bind (as_strs edge_set_names_arg) (\<lambda>edge_set_names.
     bind (as_nat units_arg) (\<lambda>units.
     bind (activations_get env (arg_or kw ''activation'' (VStr ''relu''))) (\<lambda>act.
     bind (as_tag receiver_tag_arg) (\<lambda>receiver_tag.
     bind (as_str (arg_or kw ''reduce_type'' (VStr ''mean''))) (\<lambda>reduce_type.
     bind (as_real (arg_or kw ''dropout_rate'' (VReal 0))) (\<lambda>dropout_rate.
     bind (as_bool (arg_or kw ''share_weights'' (VBool False))) (\<lambda>share_weights.
     bind (as_bool (arg_or kw ''add_self_loop'' (VBool True))) (\<lambda>add_self_loop.
     bind (as_str (arg_or kw ''sender_node_feature'' (VStr HIDDEN_STATE)))
       (\<lambda>sender_node_feature.
     bind (as_bool (arg_or kw ''use_bias'' (VBool False))) (\<lambda>use_bias.
     Inr \<lparr>gcn_edge_set_names = edge_set_names, gcn_receiver_tag = receiver_tag,
          gcn_reduce_type = reduce_type, gcn_self_node_feature = self_node_feature,
          gcn_sender_node_feature = sender_node_feature, gcn_units = units,
          gcn_dropout_rate = dropout_rate, gcn_activation = act, gcn_use_bias = use_bias,
          gcn_share_weights = share_weights, gcn_add_self_loop = add_self_loop,
          gcn_base = base,
          gcn_transform_edge_fn_dict =
            (if \<not> share_weights
             then fold (\<lambda>nm d. AList.update nm (edge_kernel nm) d) edge_set_names []
             else []),
          gcn_node_transform_fn =
            (if add_self_loop \<or> share_weights then Some node_kernel else None),
          gcn_bias_term = (if use_bias then Some (zeros units) else None)\<rparr>)))))))))))))))"

definition gcn_get_config :: "gcn_graph_sage_node_set_update \<Rightarrow> error + config" where
  "gcn_get_config layer =
     dict_merge (layer_get_config (gcn_base layer))
       [(''edge_set_names'', VStrs (gcn_edge_set_names layer)),
        (''receiver_tag'', VTag (gcn_receiver_tag layer)),
        (''reduce_type'', VStr (gcn_reduce_type layer)),
        (''self_node_feature'', VStr (gcn_self_node_feature layer)),
        (''sender_node_feature'', VStr (gcn_sender_node_feature layer)),
        (''units'', VNat (gcn_units layer)),
        (''dropout_rate'', VReal (gcn_dropout_rate layer)),
        (''activation'', VCallable (gcn_activation layer)),
        (''use_bias'', VBool (gcn_use_bias layer)),
        (''share_weights'', VBool (gcn_share_weights layer)),
        (''add_self_loop'', VBool (gcn_add_self_loop layer))]"

section \<open>The node set update and the graph update\<close>

datatype conv =
    AggregatorConv graph_sage_aggregator_conv
  | PoolingConv graph_sage_pooling_conv

text \<open>
  Modelled from the spec: \<open>AnyToAnyConvolutionBase.call\<close>, \<open>NodeSetUpdate\<close> and
  \<open>GraphUpdate\<close> are not among the source files. The spec: "at call time the
  graph-tensor framework broadcasts/pools data through each Aggregator, then feeds all
  edge-set outputs plus the old node state into the Combiner, which returns the new node
  state dictionary"; a convolution reads the sender node feature at the endpoint
  opposite to its receiver tag, and the graph update applies the node set updates of its
  mapping from node set names.
\<close>

definition conv_call :: "keras_env \<Rightarrow> conv \<Rightarrow> graph_tensor \<Rightarrow> string \<Rightarrow> bool
    \<Rightarrow> error + tensor" where
  "conv_call env c graph edge_set_name training =
     (let receiver_tag = (case c of AggregatorConv a \<Rightarrow> ac_receiver_tag a
                          | PoolingConv p \<Rightarrow> pc_receiver_tag p);
          sender_node_feature = (case c of AggregatorConv a \<Rightarrow> ac_sender_node_feature a
                                 | PoolingConv p \<Rightarrow> pc_sender_node_feature p)
      in
      bind (dict_get (edge_sets graph) edge_set_name) (\<lambda>e.
      bind (dict_get (node_sets graph) (node_set_name e (reverse_tag receiver_tag))) (\<lambda>sender.
      bind (dict_get (features sender) sender_node_feature) (\<lambda>x.
      (case c of
         AggregatorConv a \<Rightarrow>
           aggregator_convolve env a (Some x)
             (broadcast_node_to_edges graph edge_set_name (reverse_tag receiver_tag))
             (\<lambda>t reduce_type. pool_edges_to_node graph edge_set_name receiver_tag reduce_type t)
             training
       | PoolingConv p \<Rightarrow>
           pooling_convolve env p (Some x)
             (broadcast_node_to_edges graph edge_set_name (reverse_tag receiver_tag))
             (\<lambda>t reduce_type. pool_edges_to_node graph edge_set_name receiver_tag reduce_type t)
             training)))))"

record node_set_update =
  edge_set_inputs :: "(string \<times> conv) list"
  next_state :: graph_sage_next_state
  node_input_feature :: string

fun edge_inputs_of :: "keras_env \<Rightarrow> graph_tensor \<Rightarrow> bool \<Rightarrow> (string \<times> conv) list
    \<Rightarrow> error + (string \<times> tensor) list" where
  "edge_inputs_of env graph training [] = Inr []"
| "edge_inputs_of env graph training ((edge_set_name, c) # cs) =
     bind (conv_call env c graph edge_set_name training) (\<lambda>t.
     bind (edge_inputs_of env graph training cs) (\<lambda>ts.
     Inr ((edge_set_name, t) # ts)))"

definition node_set_update_call :: "keras_env \<Rightarrow> node_set_update \<Rightarrow> graph_tensor \<Rightarrow> string
    \<Rightarrow> bool \<Rightarrow> error + (string \<times> tensor) list" where
  "node_set_update_call env upd graph node_set_nm training =
     bind (dict_get (node_sets graph) node_set_nm) (\<lambda>receiver.
     bind (dict_get (features receiver) (node_input_feature upd)) (\<lambda>old_node_state.
     bind (edge_inputs_of env graph training (edge_set_inputs upd)) (\<lambda>edge_inputs_dict.
     call env (next_state upd) (old_node_state, edge_inputs_dict, Fields [])
       (Some training))))"

text \<open>
  Modelled from the spec: \<open>GraphUpdate\<close> is not among the source files. The spec: the
  factory returns "a mapping from node-set name to its assembled update", and the
  combiner "returns the new node state dictionary". The graph update applies each node
  set update of its mapping to the input graph and writes the returned features into
  that node set; a node set without an update in the mapping is kept.
\<close>

fun graph_update_call :: "keras_env \<Rightarrow> (string \<times> node_set_update) list \<Rightarrow> graph_tensor
    \<Rightarrow> bool \<Rightarrow> (string \<times> node_set) list \<Rightarrow> error + (string \<times> node_set) list" where
  "graph_update_call env updates graph training [] = Inr []"
| "graph_update_call env updates graph training ((nm, ns) # rest) =
     bind (case map_of updates nm of
             None \<Rightarrow> Inr ns
           | Some upd \<Rightarrow>
               bind (node_set_update_call env upd graph nm training) (\<lambda>new_features.
               Inr (ns\<lparr>features :=
                      fold (\<lambda>p fs. AList.update (fst p) (snd p) fs) new_features
                        (features ns)\<rparr>))) (\<lambda>ns'.
     bind (graph_update_call env updates graph training rest) (\<lambda>rest'.
     Inr ((nm, ns') # rest')))"

subsection \<open>GraphSAGEGraphUpdate\<close>

record graph_sage_graph_update =
  gu_node_set_names :: "string list"
  gu_receiver_tag :: incident_node_tag
  gu_reduce_type :: string
  gu_use_pooling :: bool
  gu_use_bias :: bool
  gu_dropout_rate :: real
  gu_units :: nat
  gu_hidden_units :: "nat option"
  gu_l2_normalize :: bool
  gu_combine_type :: string
  gu_activation :: config_value
  gu_feature_name :: string
  gu_name :: string
  gu_kwargs :: config

text \<open>The schema of an edge set: the node set names of its two endpoints.\<close>

record edge_set_spec =
  spec_source_name :: string
  spec_target_name :: string

fun spec_node_set_name :: "edge_set_spec \<Rightarrow> incident_node_tag \<Rightarrow> string" where
  "spec_node_set_name e SOURCE = spec_source_name e"
| "spec_node_set_name e TARGET = spec_target_name e"

text \<open>The initial weights of the layers that the callback creates, by the name of the
  edge set or node set the layer is made for.\<close>

record initial_weights =
  iw_neighbor_kernel :: "string \<Rightarrow> real list list"
  iw_pooling_kernel :: "string \<Rightarrow> real list list"
  iw_pooling_bias :: "string \<Rightarrow> real list"
  iw_self_kernel :: "string \<Rightarrow> real list list"

text \<open>The convolution that the first loop of the callback makes for an edge set.\<close>

definition make_conv :: "keras_env \<Rightarrow> initial_weights \<Rightarrow> graph_sage_graph_update \<Rightarrow> string
    \<Rightarrow> error + conv" where
  "make_conv env iw gu edge_set_name =
     (if gu_use_pooling gu then
        bind (dict_merge
                [(''receiver_tag'', VTag (gu_receiver_tag gu)),
                 (''sender_node_feature'', VStr (gu_feature_name gu)),
                 (''reduce_type'', VStr (gu_reduce_type gu)),
                 (''units'', VNat (gu_units gu)),
                 (''hidden_units'',
                    (case gu_hidden_units gu of None \<Rightarrow> VNone | Some h \<Rightarrow> VNat h)),
                 (''use_bias'', VBool (gu_use_bias gu)),
                 (''dropout_rate'', VReal (gu_dropout_rate gu))]
                (gu_kwargs gu)) (\<lambda>kw.
        map_sum id PoolingConv
          (pooling_init env (iw_pooling_kernel iw edge_set_name)
             (iw_pooling_bias iw edge_set_name) (iw_neighbor_kernel iw edge_set_name) kw))
      else
        bind (dict_merge
                [(''receiver_tag'', VTag (gu_receiver_tag gu)),
                 (''reduce_type'', VStr (gu_reduce_type gu)),
                 (''sender_node_feature'', VStr (gu_feature_name gu)),
                 (''units'', VNat (gu_units gu)),
                 (''dropout_rate'', VReal (gu_dropout_rate gu))]
                (gu_kwargs gu)) (\<lambda>kw.
        map_sum id AggregatorConv
          (aggregator_init (iw_neighbor_kernel iw edge_set_name) kw)))"

text \<open>
  The first loop, over \<open>spec.edge_sets_spec.items()\<close>, fills a
  \<open>collections.defaultdict(dict)\<close>: an entry for a node set comes into being when the
  first convolution is stored under it.
\<close>

definition defaultdict_store :: "(string \<times> (string \<times> conv) list) list \<Rightarrow> string \<Rightarrow> string
    \<Rightarrow> conv \<Rightarrow> (string \<times> (string \<times> conv) list) list" where
  "defaultdict_store d node_set_nm edge_set_name c =
     AList.update node_set_nm
       (AList.update edge_set_name c
          (case map_of d node_set_nm of None \<Rightarrow> [] | Some inner \<Rightarrow> inner)) d"

fun callback_edge_loop :: "keras_env \<Rightarrow> initial_weights \<Rightarrow> graph_sage_graph_update
    \<Rightarrow> (string \<times> edge_set_spec) list \<Rightarrow> (string \<times> (string \<times> conv) list) list
    \<Rightarrow> error + (string \<times> (string \<times> conv) list) list" where
  "callback_edge_loop env iw gu [] node_set_update_dict = Inr node_set_update_dict"
| "callback_edge_loop env iw gu ((edge_set_name, edge_set_spec) # rest) node_set_update_dict =
     (let node_set_nm = spec_node_set_name edge_set_spec (gu_receiver_tag gu) in
      if node_set_nm \<in> set (gu_node_set_names gu) then
        bind (make_conv env iw gu edge_set_name) (\<lambda>c.
        callback_edge_loop env iw gu rest
          (defaultdict_store node_set_update_dict node_set_nm edge_set_name c))
      else callback_edge_loop env iw gu rest node_set_update_dict)"

text \<open>The second loop makes one \<open>NodeSetUpdate\<close> with one combiner per entry.\<close>

definition make_node_set_update :: "keras_env \<Rightarrow> initial_weights \<Rightarrow> graph_sage_graph_update
    \<Rightarrow> string \<Rightarrow> (string \<times> conv) list \<Rightarrow> error + node_set_update" where
  "make_node_set_update env iw gu node_set_nm edge_set_update_dict =
     bind (dict_merge
             [(''units'', VNat (gu_units gu)),
              (''use_bias'', VBool (gu_use_bias gu)),
              (''dropout_rate'', VReal (gu_dropout_rate gu)),
              (''feature_name'', VStr (gu_feature_name gu)),
              (''l2_normalize'', VBool (gu_l2_normalize gu)),
              (''combine_type'', VStr (gu_combine_type gu)),
              (''activation'', gu_activation gu)]
             (gu_kwargs gu)) (\<lambda>kw.
     bind (next_state_init env (iw_self_kernel iw node_set_nm) kw) (\<lambda>st.
     Inr \<lparr>edge_set_inputs = edge_set_update_dict, next_state = st,
          node_input_feature = gu_feature_name gu\<rparr>))"

fun callback_node_loop :: "keras_env \<Rightarrow> initial_weights \<Rightarrow> graph_sage_graph_update
    \<Rightarrow> (string \<times> (string \<times> conv) list) list \<Rightarrow> error + (string \<times> node_set_update) list" where
  "callback_node_loop env iw gu [] = Inr []"
| "callback_node_loop env iw gu ((node_set_nm, edge_set_update_dict) # rest) =
     bind (make_node_set_update env iw gu node_set_nm edge_set_update_dict) (\<lambda>upd.
     bind (callback_node_loop env iw gu rest) (\<lambda>upds.
     Inr ((node_set_nm, upd) # upds)))"

text \<open>\<open>GraphUpdateCallback\<close>: the \<open>node_sets\<close> entry of the dict it returns.\<close>

definition GraphUpdateCallback :: "keras_env \<Rightarrow> initial_weights \<Rightarrow> graph_sage_graph_update
    \<Rightarrow> (string \<times> edge_set_spec) list \<Rightarrow> error + (string \<times> node_set_update) list" where
  "GraphUpdateCallback env iw gu edge_sets_spec =
     (if gu_use_pooling gu \<noteq> (gu_hidden_units gu \<noteq> None) then Inl PoolingConfigMismatch
      else
        bind (callback_edge_loop env iw gu edge_sets_spec []) (\<lambda>node_set_update_dict.
        callback_node_loop env iw gu node_set_update_dict))"

section \<open>ResidualNextState\<close>

text \<open>
  The inputs of a NextState layer are nests of tensors: a tensor, or a dict of nests.
  \<open>tf.nest.flatten\<close> lists the tensors of a nest, a dict in the order of its sorted
  keys.
\<close>

datatype nest = Leaf tensor | Dict "(string \<times> nest) list"

function flatten :: "nest \<Rightarrow> tensor list" where
  "flatten (Leaf t) = [t]"
| "flatten (Dict kv) = concat (map (\<lambda>p. flatten (snd p)) (sort_key fst kv))"
  by pat_completeness auto
termination
proof (relation "measure size")
  show "wf (measure (size :: nest \<Rightarrow> nat))" by simp
next
  fix kv :: "(string \<times> nest) list" and p
  assume "p \<in> set (sort_key fst kv)"
  then have "p \<in> set kv" by simp
  then have "size (snd p) < Suc (size_list (size_prod (\<lambda>_. 0) size) kv)"
    by (induction kv) (auto simp: less_Suc_eq_le)
  then show "(snd p, Dict kv) \<in> measure size" by simp
qed

record residual_next_state =
  rs_residual_block :: "tensor \<Rightarrow> error + tensor"
  rs_activation :: "tensor \<Rightarrow> error + tensor"
  rs_skip_connection_feature_name :: string
  rs_base :: layer_base

definition DEFAULT_STATE_NAME :: string where
  "DEFAULT_STATE_NAME = ''hidden_state''"

text \<open>
  The \<open>activation\<close> argument of the constructor: a Keras layer, which is kept, or an
  identifier that \<open>tf.keras.layers.Activation\<close> resolves.
\<close>

datatype activation_arg = ActivationLayer "tensor \<Rightarrow> error + tensor" | ActivationId config_value

definition residual_init :: "keras_env \<Rightarrow> (tensor \<Rightarrow> error + tensor) \<Rightarrow> activation_arg
    \<Rightarrow> config_value \<Rightarrow> config \<Rightarrow> error + residual_next_state" where
  "residual_init env residual_block activation skip_connection_feature_name kwargs =
     bind (layer_init ''residual_next_state'' kwargs) (\<lambda>base.
     bind (case activation of
             ActivationLayer l \<Rightarrow> Inr l
           | ActivationId a \<Rightarrow>
               bind (activations_get env a) (\<lambda>f. Inr (\<lambda>t. Inr (map_tensor f t)))) (\<lambda>act.
     bind (as_str skip_connection_feature_name) (\<lambda>nm.
     Inr \<lparr>rs_residual_block = residual_block, rs_activation = act,
          rs_skip_connection_feature_name = nm, rs_base = base\<rparr>)))"

text \<open>
  \<open>ResidualNextState.call\<close>. The tensors of the model have fully defined shapes, for
  which \<open>is_compatible_with\<close> is equality of the shapes.
\<close>

definition is_compatible_with :: "nat list \<Rightarrow> nat list \<Rightarrow> bool" where
  "is_compatible_with s1 s2 = (s1 = s2)"

definition skip_connection :: "residual_next_state \<Rightarrow> nest \<Rightarrow> error + tensor" where
  "skip_connection st self_input =
     (case self_input of
        Leaf t \<Rightarrow> Inr t
      | Dict kv \<Rightarrow>
          (case map_of kv (rs_skip_connection_feature_name st) of
             None \<Rightarrow> Inl SkipFeatureKeyError
           | Some (Leaf t) \<Rightarrow> Inr t
           | Some (Dict _) \<Rightarrow> Inl AttributeMissing))"

definition residual_call :: "residual_next_state \<Rightarrow> nest \<times> nest \<times> nest \<Rightarrow> error + tensor" where
  "residual_call st inputs =
     (case inputs of (self_input, inputs1, inputs2) \<Rightarrow>
      bind (skip_connection st self_input) (\<lambda>skip_connection_feature.
      bind (concat_last (flatten self_input @ flatten inputs1 @ flatten inputs2)) (\<lambda>net.
      bind (rs_residual_block st net) (\<lambda>net.
      if \<not> is_compatible_with (shape skip_connection_feature) (shape net)
      then Inl ResidualShapeMismatch
      else
        bind (tensor_add net skip_connection_feature) (\<lambda>net.
        rs_activation st net)))))"

section \<open>Concrete inputs\<close>

text \<open>
  The truth value of an eagerly evaluated tensor: that of its only element; a tensor of
  any other number of elements has none.
\<close>

definition eager_truth :: "tensor \<Rightarrow> error + bool" where
  "eager_truth t = (case concat (rows t) of [x] \<Rightarrow> Inr (x \<noteq> 0) | _ \<Rightarrow> Inl AmbiguousTruthValue)"

definition relu :: "real \<Rightarrow> real" where
  "relu x = max 0 x"

text \<open>
  An environment in inference mode by default, whose active dropout drops every entry.
\<close>

definition eager_env :: keras_env where
  "eager_env =
     \<lparr>learning_phase = False,
      drop = (\<lambda>rate t. map_tensor (\<lambda>x. 0) t),
      tensor_truth = eager_truth,
      activation_table = [''relu'' \<mapsto> relu, ''linear'' \<mapsto> (\<lambda>x. x)]\<rparr>"

definition default_base :: "string \<Rightarrow> layer_base" where
  "default_base nm = \<lparr>name = nm, trainable = True, dtype = ''float32''\<rparr>"

text \<open>A combiner of one unit: sum, no bias, no activation, no normalization.\<close>

definition unit_next_state :: graph_sage_next_state where
  "unit_next_state =
     \<lparr>ns_units = 1, ns_use_bias = False, ns_dropout_rate = 0,
      ns_feature_name = HIDDEN_STATE, ns_l2_normalize = False, ns_combine_type = ''sum'',
      ns_activation = (\<lambda>x. x), ns_base = default_base ''graph_sage_next_state'',
      ns_self_kernel = [[1]], ns_bias_term = None, ns_built = True\<rparr>"

text \<open>
  The scenario of the spec: three nodes with states \<open>s0\<close>, \<open>s1\<close>, \<open>s2\<close> of dimension
  4, the edges 1\<rightarrow>0 and 2\<rightarrow>0, an elementwise aggregator with \<open>reduce_type="mean"\<close>
  and \<open>units=4\<close>, and a combiner with \<open>combine_type\<close> as given, \<open>use_bias=False\<close>,
  \<open>activation=None\<close>, \<open>l2_normalize=False\<close>.
\<close>

definition scenario_graph :: "real list \<Rightarrow> real list \<Rightarrow> real list \<Rightarrow> graph_tensor" where
  "scenario_graph s0 s1 s2 =
     \<lparr>node_sets = [(''nodes'',
         \<lparr>total_size = 3, features = [(HIDDEN_STATE, Tensor 4 [s0, s1, s2])]\<rparr>)],
      edge_sets = [(''edges'',
         \<lparr>source_name = ''nodes'', target_name = ''nodes'',
          source_index = [1, 2], target_index = [0, 0]\<rparr>)]\<rparr>"

definition scenario_update :: "string \<Rightarrow> real list list \<Rightarrow> real list list \<Rightarrow> node_set_update" where
  "scenario_update combine_type W_self W_neigh =
     \<lparr>edge_set_inputs = [(''edges'', AggregatorConv
         \<lparr>ac_receiver_tag = TARGET, ac_reduce_type = ''mean'',
          ac_sender_node_feature = HIDDEN_STATE, ac_units = 4, ac_dropout_rate = 0,
          ac_base = default_base ''graph_sage_aggregator_conv'',
          ac_transform_neighbor_kernel = W_neigh\<rparr>)],
      next_state =
         \<lparr>ns_units = 4, ns_use_bias = False, ns_dropout_rate = 0,
          ns_feature_name = HIDDEN_STATE, ns_l2_normalize = False,
          ns_combine_type = combine_type, ns_activation = (\<lambda>x. x),
          ns_base = default_base ''graph_sage_next_state'',
          ns_self_kernel = W_self, ns_bias_term = None, ns_built = True\<rparr>,
      node_input_feature = HIDDEN_STATE\<rparr>"

text \<open>
  A node set of a single node without incoming edges, and a GCN update over its edge
  set with \<open>reduce_type="mean"\<close>.
\<close>

definition one_node_graph :: graph_tensor where
  "one_node_graph =
     \<lparr>node_sets = [(''n'', \<lparr>total_size = 1, features = [(HIDDEN_STATE, Tensor 1 [[2]])]\<rparr>)],
      edge_sets = [(''e'',
         \<lparr>source_name = ''n'', target_name = ''n'', source_index = [], target_index = []\<rparr>)]\<rparr>"

text \<open>Two nodes and the edge 1\<rightarrow>0.\<close>

definition two_node_graph :: graph_tensor where
  "two_node_graph =
     \<lparr>node_sets = [(''n'',
         \<lparr>total_size = 2, features = [(HIDDEN_STATE, Tensor 1 [[2], [6]])]\<rparr>)],
      edge_sets = [(''e'',
         \<lparr>source_name = ''n'', target_name = ''n'', source_index = [1], target_index = [0]\<rparr>)]\<rparr>"

definition unit_gcn :: "real \<Rightarrow> bool \<Rightarrow> gcn_graph_sage_node_set_update" where
  "unit_gcn rate self_loop =
     \<lparr>gcn_edge_set_names = [''e''], gcn_receiver_tag = TARGET, gcn_reduce_type = ''mean'',
      gcn_self_node_feature = HIDDEN_STATE, gcn_sender_node_feature = HIDDEN_STATE,
      gcn_units = 1, gcn_dropout_rate = rate, gcn_activation = (\<lambda>x. x),
      gcn_use_bias = False, gcn_share_weights = False, gcn_add_self_loop = self_loop,
      gcn_base = default_base ''graph_sage_gcn_update'',
      gcn_transform_edge_fn_dict = [(''e'', [[1]])],
      gcn_node_transform_fn = (if self_loop then Some [[1]] else None),
      gcn_bias_term = None\<rparr>"

text \<open>A residual layer around a given block, with a ReLU after the addition.\<close>

definition residual_with :: "(tensor \<Rightarrow> error + tensor) \<Rightarrow> residual_next_state" where
  "residual_with block =
     \<lparr>rs_residual_block = block, rs_activation = (\<lambda>t. Inr (map_tensor relu t)),
      rs_skip_connection_feature_name = DEFAULT_STATE_NAME,
      rs_base = default_base ''residual_next_state''\<rparr>"

text \<open>Two blocks: one keeps the first column of its input, one doubles each row.\<close>

definition first_column :: "tensor \<Rightarrow> error + tensor" where
  "first_column t = Inr (Tensor 1 (map (take 1) (rows t)))"

definition doubled :: "tensor \<Rightarrow> error + tensor" where
  "doubled t = Inr (Tensor (2 * ncols t) (map (\<lambda>r. r @ r) (rows t)))"

text \<open>One convolution of each kind, of one unit.\<close>

definition unit_aggregator :: graph_sage_aggregator_conv where
  "unit_aggregator =
     \<lparr>ac_receiver_tag = TARGET, ac_reduce_type = ''mean'',
      ac_sender_node_feature = HIDDEN_STATE, ac_units = 1, ac_dropout_rate = 1 / 2,
      ac_base = default_base ''graph_sage_aggregator_conv'',
      ac_transform_neighbor_kernel = [[1]]\<rparr>"

definition unit_pooling :: graph_sage_pooling_conv where
  "unit_pooling =
     \<lparr>pc_receiver_tag = SOURCE, pc_sender_node_feature = HIDDEN_STATE, pc_units = 1,
      pc_hidden_units = 2, pc_reduce_type = ''max_no_inf'', pc_use_bias = True,
      pc_dropout_rate = 0, pc_activation = relu,
      pc_base = default_base ''graph_sage_pooling_conv'',
      pc_pooling_kernel = [[1, 1]], pc_pooling_bias = [0, 0],
      pc_transform_neighbor_kernel = [[1], [1]]\<rparr>"

text \<open>
  A graph update for the node sets \<open>a\<close>, \<open>b\<close> and \<open>lonely\<close> over a schema with the
  edge sets \<open>e1\<close> from \<open>b\<close> to \<open>a\<close> and \<open>e2\<close> from \<open>a\<close> to \<open>b\<close>: no edge set is received
  by \<open>lonely\<close>.
\<close>

definition unit_weights :: initial_weights where
  "unit_weights =
     \<lparr>iw_neighbor_kernel = (\<lambda>nm. [[1]]), iw_pooling_kernel = (\<lambda>nm. [[1]]),
      iw_pooling_bias = (\<lambda>nm. [0]), iw_self_kernel = (\<lambda>nm. [[1]])\<rparr>"

definition example_graph_update :: graph_sage_graph_update where
  "example_graph_update =
     \<lparr>gu_node_set_names = [''a'', ''b'', ''lonely''], gu_receiver_tag = TARGET,
      gu_reduce_type = ''mean'', gu_use_pooling = False, gu_use_bias = True,
      gu_dropout_rate = 0, gu_units = 1, gu_hidden_units = None, gu_l2_normalize = True,
      gu_combine_type = ''sum'', gu_activation = VStr ''relu'',
      gu_feature_name = HIDDEN_STATE, gu_name = ''graph_sage'', gu_kwargs = []\<rparr>"

definition example_spec :: "(string \<times> edge_set_spec) list" where
  "example_spec =
     [(''e1'', \<lparr>spec_source_name = ''b'', spec_target_name = ''a''\<rparr>),
      (''e2'', \<lparr>spec_source_name = ''a'', spec_target_name = ''b''\<rparr>)]"

section \<open>The in-degree of a node, in the words of the spec\<close>

text \<open>
  The total in-degree of a receiver node: the count of its incident edges summed over
  all configured edge sets, plus 1 if \<open>add_self_loop\<close> is enabled.
\<close>

definition incident_edges :: "graph_tensor \<Rightarrow> incident_node_tag \<Rightarrow> string \<Rightarrow> nat \<Rightarrow> nat" where
  "incident_edges graph tag edge_set_name v =
     (case map_of (edge_sets graph) edge_set_name of
        None \<Rightarrow> 0
      | Some e \<Rightarrow> count_list (endpoint_index e tag) v)"

definition total_in_degree :: "gcn_graph_sage_node_set_update \<Rightarrow> graph_tensor \<Rightarrow> nat \<Rightarrow> nat" where
  "total_in_degree layer graph v =
     sum_list (map (\<lambda>nm. incident_edges graph (gcn_receiver_tag layer) nm v)
                (gcn_edge_set_names layer))
     + (if gcn_add_self_loop layer then 1 else 0)"

section \<open>Basic facts about the operations\<close>

lemma bind_simps [simp]: "bind (Inl e) f = Inl e" "bind (Inr x) f = f x"
  by (simp_all add: bind_def)

lemma bind_eq_Inr: "bind m f = Inr y \<longleftrightarrow> (\<exists>x. m = Inr x \<and> f x = Inr y)"
  by (cases m) simp_all

lemma bind_eq_Inl: "bind m f = Inl e \<longleftrightarrow> (m = Inl e \<or> (\<exists>x. m = Inr x \<and> f x = Inl e))"
  by (cases m) auto

lemma tensor_add_err: "tensor_add a b = Inl e \<Longrightarrow> e = OpShapeError"
  by (auto simp: tensor_add_def split: if_splits)

lemma add_n_from_err: "add_n_from a ts = Inl e \<Longrightarrow> e = OpShapeError"
  by (induction ts arbitrary: a) (auto simp: bind_eq_Inl dest: tensor_add_err)

lemma concat_from_err: "concat_from a ts = Inl e \<Longrightarrow> e = OpShapeError"
  by (induction ts arbitrary: a) (auto simp: bind_eq_Inl concat_pair_def split: if_splits)

lemma combine_values_err:
  "combine_values ts ct = Inl e \<Longrightarrow> e = OpShapeError \<or> e = UnsupportedCombineType"
  by (auto simp: combine_values_def add_n_def concat_last_def split: if_splits list.splits
      dest: add_n_from_err concat_from_err)

lemma dense_err: "dense W u t = Inl e \<Longrightarrow> e = OpShapeError"
  by (auto simp: dense_def split: if_splits)

lemma bias_add_err: "bias_add t b = Inl e \<Longrightarrow> e = OpShapeError"
  by (auto simp: bias_add_def split: if_splits)

section \<open>GraphSAGENextState: the context input\<close>

lemma call_context_error_iff:
  "call env st (x, m, ctx) training = Inl ContextNotSupported \<longleftrightarrow>
     py_truth env ctx = Inr True \<or> py_truth env ctx = Inl ContextNotSupported"
proof (cases "py_truth env ctx")
  case (Inl e)
  then show ?thesis by (simp add: call_def)
next
  case (Inr b)
  show ?thesis
  proof (cases b)
    case True
    with Inr show ?thesis by (simp add: call_def)
  next
    case False
    with Inr show ?thesis
      by (auto simp: call_def bind_eq_Inl Let_def split: if_splits option.splits
          dest: dense_err combine_values_err bias_add_err)
  qed
qed

lemma call_rejects_nonempty_bag:
  "kv \<noteq> [] \<Longrightarrow> call env st (x, m, Fields kv) training = Inl ContextNotSupported"
  by (simp add: call_context_error_iff py_truth_def)

lemma call_accepts_empty_bag:
  "call env st (x, m, Fields []) training \<noteq> Inl ContextNotSupported"
  by (simp add: call_context_error_iff py_truth_def)

text \<open>
  C7. A context input in the third position is to be refused with the error "Input from
  context is not supported by GraphSAGENextState". The check is the truth value of the
  third position: a non-empty feature dict is refused and an empty one is accepted (the
  two lemmas above), but a context input that is a single tensor of one element 0 is
  false in the \<open>if\<close>, and the call goes through with the context input ignored.
\<close>

theorem call_ignores_zero_context_tensor:
  "call eager_env unit_next_state (Tensor 1 [[5]], [], Field (Tensor 1 [[0]])) (Some False)
     = Inr [(HIDDEN_STATE, Tensor 1 [[5]])]"
  by (simp add: call_def py_truth_def eager_env_def eager_truth_def unit_next_state_def
      Dropout_def dense_def wf_tensor_def vec_mat_def combine_values_def add_n_def
      map_tensor_def)

section \<open>GraphSAGENextState: the order of the edge inputs\<close>

lemma filter_key_distinct:
  "distinct (map fst zs) \<Longrightarrow> k \<in> set zs \<Longrightarrow> filter (\<lambda>x. fst k = fst x) zs = [k]"
proof (induction zs)
  case Nil
  then show ?case by simp
next
  case (Cons z zs)
  show ?case
  proof (cases "k = z")
    case True
    have "filter (\<lambda>x. fst z = fst x) zs = []"
      using Cons.prems(1) by (auto simp: filter_empty_conv image_iff)
    with True show ?thesis by simp
  next
    case False
    with Cons.prems have "k \<in> set zs" by simp
    moreover from this Cons.prems(1) have "fst k \<noteq> fst z" by (auto simp: image_iff)
    ultimately show ?thesis using Cons by simp
  qed
qed

lemma sort_key_fst_unique:
  fixes xs ys :: "('k::linorder \<times> 'v) list"
  assumes "distinct (map fst xs)" "distinct (map fst ys)" "set xs = set ys"
  shows "sort_key fst xs = sort_key fst ys"
proof (rule properties_for_sort_key)
  have dx: "distinct xs" and dy: "distinct ys"
    using assms(1,2) by (simp_all add: distinct_map)
  then have m: "mset xs = mset ys"
    using assms(3) by (simp add: set_eq_iff_mset_eq_distinct)
  show "mset (sort_key fst ys) = mset xs" using m by simp
  show "sorted (map fst (sort_key fst ys))" by simp
  fix k assume k: "k \<in> set (sort_key fst ys)"
  then have ky: "k \<in> set ys" by simp
  then have kx: "k \<in> set xs" using assms(3) by simp
  have "mset (map fst (sort_key fst ys)) = mset (map fst ys)" by simp
  then have "distinct (map fst (sort_key fst ys))"
    using assms(2) by (metis mset_eq_imp_distinct_iff)
  then have "filter (\<lambda>x. fst k = fst x) (sort_key fst ys) = [k]"
    using k by (rule filter_key_distinct)
  moreover have "filter (\<lambda>x. fst k = fst x) xs = [k]"
    using assms(1) kx by (rule filter_key_distinct)
  ultimately show "filter (\<lambda>x. fst k = fst x) (sort_key fst ys) = filter (\<lambda>x. fst k = fst x) xs"
    by simp
qed

text \<open>
  C4. Two calls whose edge-set-keyed input dicts hold the same key-value pairs, in
  whatever iteration order, return the same: the edge inputs are sorted by edge set name
  before they are combined.
\<close>

theorem call_order_invariant:
  assumes "distinct (map fst m1)" "distinct (map fst m2)" "set m1 = set m2"
  shows "call env st (x, m1, ctx) training = call env st (x, m2, ctx) training"
proof -
  have "sort_key fst m1 = sort_key fst m2"
    using assms by (rule sort_key_fst_unique)
  then show ?thesis unfolding call_def by (simp cong: if_cong)
qed

theorem call_order_invariant_witness:
  "distinct (map fst [(''b'', Tensor 1 [[2]]), (''a'', Tensor 1 [[3]])])
  \<and> distinct (map fst [(''a'', Tensor 1 [[3]]), (''b'', Tensor 1 [[2::real]])])
  \<and> set [(''b'', Tensor 1 [[2]]), (''a'', Tensor 1 [[3]])] = set [(''a'', Tensor 1 [[3]]), (''b'', Tensor 1 [[2]])]
  \<and> call eager_env unit_next_state (Tensor 1 [[5]], [(''b'', Tensor 1 [[2]]), (''a'', Tensor 1 [[3]])], Fields []) (Some False)
    = call eager_env unit_next_state (Tensor 1 [[5]], [(''a'', Tensor 1 [[3]]), (''b'', Tensor 1 [[2]])], Fields []) (Some False)"
  using call_order_invariant [of "[(''b'', Tensor 1 [[2]]), (''a'', Tensor 1 [[3]])]" "[(''a'', Tensor 1 [[3]]), (''b'', Tensor 1 [[2]])]" eager_env unit_next_state "Tensor 1 [[5]]" "Fields []" "Some False"]
  by auto

section \<open>Shapes of the results of the operations\<close>

lemma length_vadd [simp]: "length (vadd x y) = min (length x) (length y)"
  by (simp add: vadd_def)

lemma length_vec_mat [simp]: "length (vec_mat x W u) = u"
  by (simp add: vec_mat_def)

lemma dense_Inr:
  assumes "dense W u t = Inr s"
  shows "ncols s = u" "wf_tensor s" "length (rows s) = length (rows t)"
    "rows s = map (\<lambda>r. vec_mat r W u) (rows t)"
  using assms by (auto simp: dense_def wf_tensor_def list_all_iff split: if_splits)

lemma wf_map2_vadd:
  "list_all (\<lambda>r. length r = n) xs \<Longrightarrow> list_all (\<lambda>r. length r = n) ys
     \<Longrightarrow> list_all (\<lambda>r. length r = n) (map2 vadd xs ys)"
proof (induction xs arbitrary: ys)
  case Nil
  then show ?case by simp
next
  case (Cons x xs)
  then show ?case by (cases ys) simp_all
qed

lemma tensor_add_Inr:
  assumes "tensor_add a b = Inr s"
  shows "ncols s = ncols a" "ncols b = ncols a" "length (rows s) = length (rows a)"
    "wf_tensor a \<Longrightarrow> wf_tensor b \<Longrightarrow> wf_tensor s"
proof -
  from assms have eq: "shape a = shape b"
    and s: "s = Tensor (ncols a) (map2 vadd (rows a) (rows b))"
    by (auto simp: tensor_add_def split: if_splits)
  show "ncols s = ncols a" "ncols b = ncols a" "length (rows s) = length (rows a)"
    using eq s by (simp_all add: shape_def)
  show "wf_tensor s" if "wf_tensor a" "wf_tensor b"
    using that eq s wf_map2_vadd [of "ncols a" "rows a" "rows b"]
    by (simp add: wf_tensor_def shape_def)
qed

lemma add_n_from_Inr:
  assumes "add_n_from a ts = Inr s"
  shows "ncols s = ncols a \<and> list_all (\<lambda>t. ncols t = ncols a) ts
     \<and> (wf_tensor a \<longrightarrow> list_all wf_tensor ts \<longrightarrow> wf_tensor s)"
  using assms
proof (induction ts arbitrary: a)
  case Nil
  then show ?case by simp
next
  case (Cons t ts)
  from Cons.prems obtain s' where s': "tensor_add a t = Inr s'" "add_n_from s' ts = Inr s"
    by (auto simp: bind_eq_Inr)
  from Cons.IH [OF s'(2)] tensor_add_Inr [OF s'(1)] show ?case
    by (auto simp: list_all_iff)
qed

lemma concat_pair_Inr:
  assumes "concat_pair a b = Inr c"
  shows "ncols c = ncols a + ncols b" "length (rows c) = length (rows a)"
    "wf_tensor a \<Longrightarrow> map (take (ncols a)) (rows c) = rows a"
    "wf_tensor a \<Longrightarrow> wf_tensor b \<Longrightarrow> wf_tensor c"
proof -
  from assms have len: "length (rows a) = length (rows b)"
    and c: "c = Tensor (ncols a + ncols b) (map2 (@) (rows a) (rows b))"
    by (auto simp: concat_pair_def split: if_splits)
  show "ncols c = ncols a + ncols b" "length (rows c) = length (rows a)"
    using c len by simp_all
  show "map (take (ncols a)) (rows c) = rows a" if "wf_tensor a"
  proof -
    have "\<And>ys. length xs = length ys \<Longrightarrow> list_all (\<lambda>r. length r = n) xs
        \<Longrightarrow> map (take n) (map2 (@) xs ys) = xs" for xs :: "real list list" and n
    proof (induction xs)
      case Nil
      then show ?case by simp
    next
      case (Cons x xs)
      then show ?case by (cases ys) auto
    qed
    with len that c show ?thesis by (simp add: wf_tensor_def)
  qed
  show "wf_tensor c" if "wf_tensor a" "wf_tensor b"
  proof -
    have "\<And>ys. list_all (\<lambda>r. length r = n) xs \<Longrightarrow> list_all (\<lambda>r. length r = k) ys
        \<Longrightarrow> list_all (\<lambda>r. length r = n + k) (map2 (@) xs ys)"
      for xs :: "real list list" and n k
    proof (induction xs)
      case Nil
      then show ?case by simp
    next
      case (Cons x xs)
      then show ?case by (cases ys) simp_all
    qed
    with that c show ?thesis by (simp add: wf_tensor_def)
  qed
qed

lemma concat_from_Inr:
  assumes "concat_from a ts = Inr c"
  shows "ncols c = ncols a + sum_list (map ncols ts)
     \<and> (wf_tensor a \<longrightarrow> map (take (ncols a)) (rows c) = rows a)
     \<and> (wf_tensor a \<longrightarrow> list_all wf_tensor ts \<longrightarrow> wf_tensor c)"
  using assms
proof (induction ts arbitrary: a)
  case Nil
  then show ?case by (auto simp: wf_tensor_def list_all_iff intro: map_idI)
next
  case (Cons t ts)
  from Cons.prems obtain s where s: "concat_pair a t = Inr s" "concat_from s ts = Inr c"
    by (auto simp: bind_eq_Inr)
  note p = concat_pair_Inr [OF s(1)] and ih = Cons.IH [OF s(2)]
  have "ncols c = ncols a + sum_list (map ncols (t # ts))"
    using ih p(1) by simp
  moreover have "map (take (ncols a)) (rows c) = rows a" if wa: "wf_tensor a"
  proof -
    have wf_s_prefix: "map (take (ncols a)) (rows s) = rows a" using p(3) wa .
    have ls: "list_all (\<lambda>r. ncols a \<le> length r) (rows s)"
      unfolding list_all_length
    proof (intro allI impI)
      fix i assume i: "i < length (rows s)"
      then have "take (ncols a) (rows s ! i) = rows a ! i"
        using wf_s_prefix by (metis nth_map)
      moreover have "length (rows a ! i) = ncols a"
        using wa i p(2) by (simp add: wf_tensor_def list_all_length)
      ultimately have "length (take (ncols a) (rows s ! i)) = ncols a" by simp
      then show "ncols a \<le> length (rows s ! i)" by simp
    qed
    have "length (rows c) = length (rows s) \<and> (\<forall>i < length (rows s). take (ncols a) (rows c ! i) = take (ncols a) (rows s ! i))"
      using s(2) ls
    proof (induction ts arbitrary: s)
      case Nil
      then show ?case by simp
    next
      case (Cons u us)
      from Cons.prems(1) obtain s2 where s2: "concat_pair s u = Inr s2" "concat_from s2 us = Inr c"
        by (auto simp: bind_eq_Inr)
      from s2(1) have len: "length (rows s) = length (rows u)"
        and r2: "rows s2 = map2 (@) (rows s) (rows u)"
        by (auto simp: concat_pair_def split: if_splits)
      have l2: "list_all (\<lambda>r. ncols a \<le> length r) (rows s2)"
        using Cons.prems(2) r2 len by (auto simp: list_all_length intro: trans_le_add1)
      from Cons.IH [OF s2(2) l2] r2 len Cons.prems(2) show ?case
        by (simp add: list_all_length)
    qed
    then have "map (take (ncols a)) (rows c) = map (take (ncols a)) (rows s)"
      by (auto intro: nth_equalityI)
    with wf_s_prefix show ?thesis by simp
  qed
  moreover have "wf_tensor c" if "wf_tensor a" "list_all wf_tensor (t # ts)"
    using ih p(4) that by simp
  ultimately show ?case by blast
qed

lemma bias_add_Inr:
  assumes "bias_add t b = Inr r" "length b = ncols t"
  shows "ncols r = ncols t" "wf_tensor t \<Longrightarrow> wf_tensor r"
  using assms by (auto simp: bias_add_def wf_tensor_def list_all_iff)

lemma map_tensor_shape [simp]:
  "ncols (map_tensor f t) = ncols t" "wf_tensor (map_tensor f t) = wf_tensor t"
  "length (rows (map_tensor f t)) = length (rows t)"
  by (simp_all add: map_tensor_def wf_tensor_def list_all_iff)

lemma l2_normalize_shape [simp]:
  "ncols (l2_normalize_axis1 t) = ncols t" "wf_tensor (l2_normalize_axis1 t) = wf_tensor t"
  by (simp_all add: l2_normalize_axis1_def l2_normalize_row_def wf_tensor_def list_all_iff)

lemma sum_list_map_sort_key:
  "sum_list (map f (sort_key g xs)) = (sum_list (map f xs) :: nat)"
proof -
  have "sum_mset (image_mset f (mset (sort_key g xs))) = sum_mset (image_mset f (mset xs))"
    by simp
  then show ?thesis by (metis mset_map sum_mset_sum_list)
qed

lemma edge_width_static [simp]: "edge_width (static_shape t) = ncols t"
  by (simp add: edge_width_def static_shape_def)

lemma invalid_edge_shape_static [simp]: "\<not> invalid_edge_shape (static_shape t)"
  by (simp add: invalid_edge_shape_def static_shape_def)

section \<open>GraphSAGENextState: the pipeline and the width of its result\<close>

lemma call_Inr_iff:
  "call env st (x, m, Fields []) training = Inr out \<longleftrightarrow>
     (\<exists>s c b.
        dense (ns_self_kernel st) (ns_units st)
          (Dropout env (ns_dropout_rate st) training x) = Inr s
      \<and> combine_values (s # map snd (sort_key fst m)) (ns_combine_type st) = Inr c
      \<and> (if ns_use_bias st
         then \<exists>bias. ns_bias_term st = Some bias \<and> bias_add c bias = Inr b
         else b = c)
      \<and> out = [(ns_feature_name st,
                (if ns_l2_normalize st then l2_normalize_axis1 else (\<lambda>t. t))
                  (map_tensor (ns_activation st) b))])"
proof (cases "ns_use_bias st")
  case True
  then show ?thesis
    by (cases "ns_bias_term st")
      (auto simp: call_def py_truth_def bind_eq_Inr Let_def)
next
  case False
  then show ?thesis
    by (auto simp: call_def py_truth_def bind_eq_Inr Let_def)
qed

lemma build_bias_length:
  assumes "build st0 (map (\<lambda>p. (fst p, static_shape (snd p))) m) = Inr st"
  shows "ns_units st = ns_units st0" "ns_combine_type st = ns_combine_type st0"
    "ns_use_bias st = ns_use_bias st0"
    "ns_use_bias st \<Longrightarrow> ns_bias_term st =
       Some (zeros (ns_units st + (if ns_combine_type st = ''concat''
                                   then sum_list (map (\<lambda>p. ncols (snd p)) m) else 0)))"
  using assms
  by (auto simp: build_def Let_def comp_def split: if_splits)

text \<open>
  C2. A call that returns, on a layer whose bias was built from the shapes of these edge
  inputs, returns one tensor whose rows all have the width \<open>units\<close> under
  \<open>combine_type="sum"\<close>, and \<open>units\<close> plus the sum of the widths of the edge inputs
  under \<open>combine_type="concat"\<close>; under \<open>concat\<close> the first \<open>units\<close> columns of the
  combined tensor (before bias and activation) are the self-transform output.
\<close>

theorem next_state_output_width:
  assumes "call env st (x, m, Fields []) training = Inr out"
    and "build st0 (map (\<lambda>p. (fst p, static_shape (snd p))) m) = Inr st"
    and "list_all (\<lambda>p. wf_tensor (snd p)) m"
  shows "\<exists>t s c. out = [(ns_feature_name st, t)] \<and> wf_tensor t
     \<and> dense (ns_self_kernel st) (ns_units st)
          (Dropout env (ns_dropout_rate st) training x) = Inr s
     \<and> combine_values (s # map snd (sort_key fst m)) (ns_combine_type st) = Inr c
     \<and> (ns_combine_type st = ''sum'' \<longrightarrow> ncols t = ns_units st)
     \<and> (ns_combine_type st = ''concat'' \<longrightarrow>
          ncols t = ns_units st + sum_list (map (\<lambda>p. ncols (snd p)) m)
          \<and> map (take (ns_units st)) (rows c) = rows s)"
proof -
  from assms(1) obtain s c b where
    s: "dense (ns_self_kernel st) (ns_units st)
          (Dropout env (ns_dropout_rate st) training x) = Inr s"
    and c: "combine_values (s # map snd (sort_key fst m)) (ns_combine_type st) = Inr c"
    and b: "if ns_use_bias st
         then \<exists>bias. ns_bias_term st = Some bias \<and> bias_add c bias = Inr b
         else b = c"
    and out: "out = [(ns_feature_name st,
                (if ns_l2_normalize st then l2_normalize_axis1 else (\<lambda>t. t))
                  (map_tensor (ns_activation st) b))]"
    unfolding call_Inr_iff by blast
  let ?es = "map snd (sort_key fst m)"
  let ?w = "sum_list (map (\<lambda>p. ncols (snd p)) m)"
  note ds = dense_Inr [OF s]
  have wf_es: "list_all wf_tensor ?es"
    using assms(3) by (simp add: list_all_iff)
  have w_es: "sum_list (map ncols ?es) = ?w"
    using sum_list_map_sort_key [of "\<lambda>p. ncols (snd p)" fst m] by (simp add: comp_def)
  have ct: "ns_combine_type st = ''sum'' \<or> ns_combine_type st = ''concat''"
    using c by (auto simp: combine_values_def split: if_splits)
  have cw: "wf_tensor c
     \<and> ncols c = ns_units st + (if ns_combine_type st = ''concat'' then ?w else 0)
     \<and> (ns_combine_type st = ''concat'' \<longrightarrow> map (take (ns_units st)) (rows c) = rows s)"
  proof (cases "ns_combine_type st = ''sum''")
    case True
    with c have "add_n_from s ?es = Inr c"
      by (simp add: combine_values_def add_n_def)
    from add_n_from_Inr [OF this] ds wf_es True show ?thesis by simp
  next
    case False
    with ct have cc: "ns_combine_type st = ''concat''" by simp
    with c have "concat_from s ?es = Inr c"
      by (simp add: combine_values_def concat_last_def)
    from concat_from_Inr [OF this] ds wf_es cc w_es show ?thesis by simp
  qed
  have bw: "wf_tensor b \<and> ncols b = ncols c"
  proof (cases "ns_use_bias st")
    case True
    with b obtain bias where bias: "ns_bias_term st = Some bias" "bias_add c bias = Inr b"
      by auto
    from build_bias_length(4) [OF assms(2) True] bias(1) cw
    have "length bias = ncols c" by (auto simp: zeros_def)
    from bias_add_Inr [OF bias(2) this] cw show ?thesis by simp
  next
    case False
    with b cw show ?thesis by simp
  qed
  let ?t = "(if ns_l2_normalize st then l2_normalize_axis1 else (\<lambda>t. t))
              (map_tensor (ns_activation st) b)"
  have "wf_tensor ?t" "ncols ?t = ncols c" using bw by simp_all
  with out s c cw show ?thesis by auto
qed


lemma unit_concat_call:
  "call eager_env
     (unit_next_state\<lparr>ns_use_bias := True, ns_combine_type := ''concat'',
        ns_bias_term := Some (zeros 3)\<rparr>)
     (Tensor 1 [[5]], [(''e'', Tensor 2 [[1, 2]])], Fields []) (Some False)
   = Inr [(HIDDEN_STATE, Tensor 3 [[5, 1, 2]])]"
  by (simp add: call_def py_truth_def eager_env_def unit_next_state_def Dropout_def
      dense_def wf_tensor_def vec_mat_def combine_values_def concat_last_def concat_pair_def
      bias_add_def vadd_def zeros_def map_tensor_def numeral_3_eq_3)

lemma unit_concat_build:
  "build (unit_next_state\<lparr>ns_use_bias := True, ns_combine_type := ''concat''\<rparr>)
     (map (\<lambda>p. (fst p, static_shape (snd p))) [(''e'', Tensor 2 [[1, 2]])])
   = Inr (unit_next_state\<lparr>ns_use_bias := True, ns_combine_type := ''concat'',
        ns_bias_term := Some (zeros 3)\<rparr>)"
  by (simp add: build_def unit_next_state_def static_shape_def invalid_edge_shape_def
      edge_width_def numeral_3_eq_3)

theorem next_state_output_width_witness:
  "call eager_env
     (unit_next_state\<lparr>ns_use_bias := True, ns_combine_type := ''concat'',
        ns_bias_term := Some (zeros 3)\<rparr>)
     (Tensor 1 [[5]], [(''e'', Tensor 2 [[1, 2]])], Fields []) (Some False)
   = Inr [(HIDDEN_STATE, Tensor 3 [[5, 1, 2]])]
   \<and> (\<exists>s c. dense [[1]] 1 (Tensor 1 [[5]]) = Inr s
        \<and> combine_values [s, Tensor 2 [[1, 2]]] ''concat'' = Inr c
        \<and> ncols (Tensor 3 [[5, 1, 2]]) = 1 + 2
        \<and> map (take 1) (rows c) = rows s)"
proof -
  have "list_all (\<lambda>p. wf_tensor (snd p)) [(''e'', Tensor 2 [[1, 2]])]"
    by (simp add: wf_tensor_def)
  from next_state_output_width [OF unit_concat_call unit_concat_build this]
  obtain t s c where
    "[(HIDDEN_STATE, Tensor 3 [[5, 1, 2]])] = [(HIDDEN_STATE, t)]"
    "dense [[1]] 1 (Tensor 1 [[5]]) = Inr s"
    "combine_values [s, Tensor 2 [[1, 2]]] ''concat'' = Inr c"
    "ncols t = 1 + 2" "map (take 1) (rows c) = rows s"
    by (auto simp: unit_next_state_def Dropout_def eager_env_def)
  then show ?thesis using unit_concat_call by auto
qed

section \<open>Linearity of the dense transform\<close>

lemma dot_add:
  fixes x y :: "real list"
  assumes "length x = length y"
  shows "sum_list (map2 (\<lambda>a r. a * f r) (map2 (+) x y) W)
     = sum_list (map2 (\<lambda>a r. a * f r) x W) + sum_list (map2 (\<lambda>a r. a * f r) y W)"
  using assms
proof (induction x y arbitrary: W rule: list_induct2)
  case Nil
  then show ?case by simp
next
  case (Cons a x b y)
  then show ?case by (cases W) (simp_all add: algebra_simps)
qed

lemma dot_scale:
  fixes x :: "real list"
  shows "sum_list (map2 (\<lambda>a r. a * f r) (map (\<lambda>a. a / c) x) W)
     = sum_list (map2 (\<lambda>a r. a * f r) x W) / c"
proof (induction x arbitrary: W)
  case Nil
  then show ?case by simp
next
  case (Cons a x)
  then show ?case by (cases W) (simp_all add: add_divide_distrib)
qed

lemma dot_zeros:
  "sum_list (map2 (\<lambda>a r. a * f r) (replicate n (0::real)) W) = 0"
proof (induction n arbitrary: W)
  case 0
  then show ?case by simp
next
  case (Suc n)
  then show ?case by (cases W) simp_all
qed

lemma map2_map_same: "map2 h (map f xs) (map g xs) = map (\<lambda>x. h (f x) (g x)) xs"
  by (induction xs) simp_all

lemma vec_mat_add:
  "length x = length y \<Longrightarrow> vec_mat (vadd x y) W u = vadd (vec_mat x W u) (vec_mat y W u)"
  by (simp add: vec_mat_def vadd_def map2_map_same dot_add)

lemma vec_mat_scale:
  "vec_mat (map (\<lambda>a. a / c) x) W u = map (\<lambda>a. a / c) (vec_mat x W u)"
  by (simp add: vec_mat_def dot_scale)

lemma length_zeros [simp]: "length (zeros n) = n"
  by (simp add: zeros_def)

lemma vec_mat_zeros: "vec_mat (zeros n) W u = zeros u"
  by (simp add: vec_mat_def zeros_def dot_zeros map_replicate_const)

lemma vadd_zeros_right: "length x \<le> n \<Longrightarrow> vadd x (zeros n) = x"
proof (induction x arbitrary: n)
  case Nil
  then show ?case by (simp add: vadd_def)
next
  case (Cons a x)
  then show ?case by (cases n) (simp_all add: vadd_def zeros_def)
qed

lemma Dropout_rate_zero [simp]: "Dropout env 0 training x = x"
  by (simp add: Dropout_def)

lemma Dropout_inference [simp]: "Dropout env rate (Some False) x = x"
  by (simp add: Dropout_def)

section \<open>The scenario of the spec\<close>

lemma scenario_aggregate:
  assumes "length s0 = 4" "length s1 = 4" "length s2 = 4" "length W_neigh = 4"
  shows "edge_inputs_of env (scenario_graph s0 s1 s2) training
           (edge_set_inputs (scenario_update ct W_self W_neigh))
     = Inr [(''edges'', Tensor 4
         [map (\<lambda>v. v / 2) (vadd (vec_mat s1 W_neigh 4) (vec_mat s2 W_neigh 4)),
          zeros 4, zeros 4])]"
proof -
  have mean: "vec_mat (map (\<lambda>x. x / 2) (vadd s1 (vadd s2 (zeros 4)))) W_neigh 4
     = map (\<lambda>v. v / 2) (vadd (vec_mat s1 W_neigh 4) (vec_mat s2 W_neigh 4))"
    using assms by (simp add: vec_mat_scale vec_mat_add vadd_zeros_right)
  have up: "[0..<3] = [0, 1, 2]" by (simp add: upt_rec)
  show ?thesis
    using assms
    by (simp add: scenario_update_def scenario_graph_def conv_call_def dict_get_def
        aggregator_convolve_def broadcast_node_to_edges_def pool_edges_to_node_def
        reduce_rows_def rows_at_def vsum_def dense_def wf_tensor_def up mean vec_mat_zeros)
qed

lemma scenario_sum:
  assumes "length s0 = 4" "length s1 = 4" "length s2 = 4"
    "length W_self = 4" "length W_neigh = 4"
  shows "node_set_update_call env (scenario_update ''sum'' W_self W_neigh)
           (scenario_graph s0 s1 s2) ''nodes'' training
     = Inr [(HIDDEN_STATE, Tensor 4
         [vadd (vec_mat s0 W_self 4)
            (map (\<lambda>v. v / 2) (vadd (vec_mat s1 W_neigh 4) (vec_mat s2 W_neigh 4))),
          vadd (vec_mat s1 W_self 4) (zeros 4),
          vadd (vec_mat s2 W_self 4) (zeros 4)])]"
proof -
  note agg = scenario_aggregate [OF assms(1,2,3,5), of env training "''sum''" W_self]
  have ns: "next_state (scenario_update ''sum'' W_self W_neigh)
      = \<lparr>ns_units = 4, ns_use_bias = False, ns_dropout_rate = 0,
          ns_feature_name = HIDDEN_STATE, ns_l2_normalize = False,
          ns_combine_type = ''sum'', ns_activation = (\<lambda>x. x),
          ns_base = default_base ''graph_sage_next_state'',
          ns_self_kernel = W_self, ns_bias_term = None, ns_built = True\<rparr>"
    "node_input_feature (scenario_update ''sum'' W_self W_neigh) = HIDDEN_STATE"
    by (simp_all add: scenario_update_def)
  show ?thesis
    unfolding node_set_update_call_def agg ns
    using assms
    by (simp add: scenario_graph_def dict_get_def call_def py_truth_def dense_def
        wf_tensor_def combine_values_def add_n_def tensor_add_def shape_def map_tensor_def)
qed


text \<open>
  C1. With an empty context input, a call returns exactly when the steps of the pipeline
  succeed in this order: dropout on the old state, the self-transform without bias to
  \<open>units\<close> dimensions, the combination of the self-transformed state followed by the
  edge inputs in the order of their edge set names, the bias if \<open>use_bias\<close>, the
  activation, the L2 normalization if \<open>l2_normalize\<close>; and the result is the single
  entry under \<open>feature_name\<close>. In the scenario of three nodes with edges 1\<rightarrow>0 and
  2\<rightarrow>0, node 0 gets its self-transform plus the mean of the transformed states of
  nodes 1 and 2, and nodes 1 and 2 get their self-transform plus zero.
\<close>

theorem next_state_pipeline:
  assumes "length s0 = 4" "length s1 = 4" "length s2 = 4"
    "length W_self = 4" "length W_neigh = 4"
  shows "(call env st (x, m, Fields []) training = Inr out \<longleftrightarrow>
     (\<exists>s c b.
        dense (ns_self_kernel st) (ns_units st)
          (Dropout env (ns_dropout_rate st) training x) = Inr s
      \<and> combine_values (s # map snd (sort_key fst m)) (ns_combine_type st) = Inr c
      \<and> (if ns_use_bias st
         then \<exists>bias. ns_bias_term st = Some bias \<and> bias_add c bias = Inr b
         else b = c)
      \<and> out = [(ns_feature_name st,
                (if ns_l2_normalize st then l2_normalize_axis1 else (\<lambda>t. t))
                  (map_tensor (ns_activation st) b))]))
   \<and> node_set_update_call env (scenario_update ''sum'' W_self W_neigh)
           (scenario_graph s0 s1 s2) ''nodes'' flag
     = Inr [(HIDDEN_STATE, Tensor 4
         [vadd (vec_mat s0 W_self 4)
            (map (\<lambda>v. v / 2) (vadd (vec_mat s1 W_neigh 4) (vec_mat s2 W_neigh 4))),
          vadd (vec_mat s1 W_self 4) (zeros 4),
          vadd (vec_mat s2 W_self 4) (zeros 4)])]"
  using call_Inr_iff [of env st x m training out] scenario_sum [OF assms, of env flag]
  by (rule conjI)

lemma vec_mat_identity4:
  "vec_mat [a, b, c, d] [[1, 0, 0, 0], [0, 1, 0, 0], [0, 0, 1, 0], [0, 0, 0, 1]] 4
     = [a, b, c, d]"
proof -
  have "[0..<4] = [0, 1, 2, 3]" by (simp add: upt_rec)
  then show ?thesis by (simp add: vec_mat_def)
qed

theorem next_state_pipeline_witness:
  "length [1, 0, 0, 0 :: real] = 4 \<and> length [0, 2, 0, 0 :: real] = 4
   \<and> length [0, 4, 0, 0 :: real] = 4
   \<and> length [[1, 0, 0, 0], [0, 1, 0, 0], [0, 0, 1, 0], [0, 0, 0, 1 :: real]] = 4
   \<and> call eager_env unit_next_state (Tensor 1 [[5]], [(''e'', Tensor 1 [[2]])], Fields [])
         (Some True)
       = Inr [(HIDDEN_STATE, Tensor 1 [[7]])]
   \<and> node_set_update_call eager_env
         (scenario_update ''sum'' [[1, 0, 0, 0], [0, 1, 0, 0], [0, 0, 1, 0], [0, 0, 0, 1]]
            [[1, 0, 0, 0], [0, 1, 0, 0], [0, 0, 1, 0], [0, 0, 0, 1]])
         (scenario_graph [1, 0, 0, 0] [0, 2, 0, 0] [0, 4, 0, 0]) ''nodes'' True
       = Inr [(HIDDEN_STATE, Tensor 4 [[1, 3, 0, 0], [0, 2, 0, 0], [0, 4, 0, 0]])]"
proof -
  let ?I = "[[1, 0, 0, 0], [0, 1, 0, 0], [0, 0, 1, 0], [0, 0, 0, 1 :: real]]"
  have len: "length [1, 0, 0, 0 :: real] = 4" "length [0, 2, 0, 0 :: real] = 4"
    "length [0, 4, 0, 0 :: real] = 4" "length ?I = 4"
    by simp_all
  note inst = next_state_pipeline [OF len(1,2,3,4,4), of eager_env unit_next_state
      "Tensor 1 [[5]]" "[(''e'', Tensor 1 [[2]])]" "Some True"
      "[(HIDDEN_STATE, Tensor 1 [[7]])]" True]
  have "call eager_env unit_next_state (Tensor 1 [[5]], [(''e'', Tensor 1 [[2]])], Fields [])
         (Some True) = Inr [(HIDDEN_STATE, Tensor 1 [[7]])]"
    unfolding inst [THEN conjunct1]
    by (simp add: unit_next_state_def dense_def wf_tensor_def vec_mat_def combine_values_def
        add_n_def tensor_add_def shape_def vadd_def map_tensor_def)
  moreover have "node_set_update_call eager_env (scenario_update ''sum'' ?I ?I)
         (scenario_graph [1, 0, 0, 0] [0, 2, 0, 0] [0, 4, 0, 0]) ''nodes'' True
       = Inr [(HIDDEN_STATE, Tensor 4 [[1, 3, 0, 0], [0, 2, 0, 0], [0, 4, 0, 0]])]"
  proof -
    have z: "zeros 4 = [0, 0, 0, 0]" by (simp add: zeros_def numeral_eq_Suc)
    show ?thesis
      unfolding inst [THEN conjunct2] by (simp add: vec_mat_identity4 vadd_def z)
  qed
  ultimately show ?thesis using len by simp
qed

section \<open>GraphSAGENextState: the bias\<close>

lemma invalid_edge_shape_iff:
  "invalid_edge_shape s \<longleftrightarrow>
     shape_rank s \<noteq> Some 2 \<or> (\<exists>ds. s = Some ds \<and> ds ! 1 = None)"
  by (cases s) (auto simp: invalid_edge_shape_def shape_rank_def)

lemma next_state_init_unbuilt:
  "next_state_init env W kw = Inr st \<Longrightarrow> ns_bias_term st = None \<and> \<not> ns_built st"
  by (auto simp: next_state_init_def bind_eq_Inr)

text \<open>
  C8. With \<open>use_bias\<close>, the bias is created by \<open>build\<close>: zeros of shape \<open>[units]\<close>
  under \<open>sum\<close>, and of shape \<open>[units + sum of the feature widths of the edge inputs]\<close>
  under \<open>concat\<close>, where \<open>build\<close> fails with "Invalid shape for edge inputs" if an
  edge input shape has a rank other than 2 or no defined feature width. The constructor
  creates no bias; the first call builds the layer from the shapes of its inputs, and a
  built layer is not built again.
\<close>

theorem build_bias_shape:
  "(ns_use_bias st \<and> ns_combine_type st = ''sum'' \<longrightarrow>
      build st shapes = Inr (st\<lparr>ns_bias_term := Some (zeros (ns_units st))\<rparr>))
   \<and> (ns_use_bias st \<and> ns_combine_type st = ''concat'' \<longrightarrow>
      build st shapes =
        (if list_ex (\<lambda>s. shape_rank s \<noteq> Some 2 \<or> (\<exists>ds. s = Some ds \<and> ds ! 1 = None))
              (map snd shapes)
         then Inl InvalidEdgeInputShape
         else Inr (st\<lparr>ns_bias_term :=
                Some (zeros (ns_units st + sum_list (map (\<lambda>p. edge_width (snd p)) shapes)))\<rparr>)))
   \<and> (next_state_init env W kw = Inr st0 \<longrightarrow> ns_bias_term st0 = None \<and> \<not> ns_built st0)
   \<and> (\<not> ns_built st \<longrightarrow>
        build st (map (\<lambda>p. (fst p, static_shape (snd p))) m) = Inr st' \<longrightarrow>
        fst (next_state_layer_call env st (x, m, ctx) training) = st'\<lparr>ns_built := True\<rparr>)
   \<and> (ns_built st \<longrightarrow> fst (next_state_layer_call env st (x, m, ctx) training) = st)"
proof -
  have inv: "list_ex invalid_edge_shape ss
      = list_ex (\<lambda>s. shape_rank s \<noteq> Some 2 \<or> (\<exists>ds. s = Some ds \<and> ds ! 1 = None)) ss" for ss
    by (simp add: list_ex_iff invalid_edge_shape_iff)
  show ?thesis
    using next_state_init_unbuilt [of env W kw st0]
    by (simp add: build_def Let_def inv comp_def next_state_layer_call_def)
qed

theorem build_bias_shape_witness:
  "build (unit_next_state\<lparr>ns_use_bias := True, ns_built := False\<rparr>) [(''e'', Some [None, Some 1])]
     = Inr (unit_next_state\<lparr>ns_use_bias := True, ns_built := False,
              ns_bias_term := Some (zeros 1)\<rparr>)
   \<and> build (unit_next_state\<lparr>ns_use_bias := True, ns_combine_type := ''concat''\<rparr>)
       [(''e'', Some [None, Some 2]), (''f'', Some [Some 7, Some 3])]
     = Inr (unit_next_state\<lparr>ns_use_bias := True, ns_combine_type := ''concat'',
              ns_bias_term := Some (zeros 6)\<rparr>)
   \<and> build (unit_next_state\<lparr>ns_use_bias := True, ns_combine_type := ''concat''\<rparr>)
       [(''e'', Some [None, Some 2]), (''f'', Some [Some 7, None])]
     = Inl InvalidEdgeInputShape
   \<and> build (unit_next_state\<lparr>ns_use_bias := True, ns_combine_type := ''concat''\<rparr>)
       [(''e'', Some [Some 2])]
     = Inl InvalidEdgeInputShape
   \<and> fst (next_state_layer_call eager_env (unit_next_state\<lparr>ns_use_bias := True\<rparr>)
         (Tensor 1 [[5]], [], Fields []) (Some False))
     = unit_next_state\<lparr>ns_use_bias := True\<rparr>"
proof -
  let ?sum = "unit_next_state\<lparr>ns_use_bias := True, ns_built := False\<rparr>"
  let ?cat = "unit_next_state\<lparr>ns_use_bias := True, ns_combine_type := ''concat''\<rparr>"
  have "build ?sum [(''e'', Some [None, Some 1])]
      = Inr (?sum\<lparr>ns_bias_term := Some (zeros 1)\<rparr>)"
    using build_bias_shape [of ?sum "[(''e'', Some [None, Some 1])]"]
    by (simp add: unit_next_state_def)
  moreover have "build ?cat [(''e'', Some [None, Some 2]), (''f'', Some [Some 7, Some 3])]
      = Inr (?cat\<lparr>ns_bias_term := Some (zeros 6)\<rparr>)"
    using build_bias_shape [of ?cat "[(''e'', Some [None, Some 2]), (''f'', Some [Some 7, Some 3])]"]
    by (simp add: unit_next_state_def shape_rank_def edge_width_def)
  moreover have "build ?cat [(''e'', Some [None, Some 2]), (''f'', Some [Some 7, None])]
      = Inl InvalidEdgeInputShape"
    using build_bias_shape [of ?cat "[(''e'', Some [None, Some 2]), (''f'', Some [Some 7, None])]"]
    by (simp add: unit_next_state_def shape_rank_def)
  moreover have "build ?cat [(''e'', Some [Some 2])] = Inl InvalidEdgeInputShape"
    using build_bias_shape [of ?cat "[(''e'', Some [Some 2])]"]
    by (simp add: unit_next_state_def shape_rank_def)
  moreover have "fst (next_state_layer_call eager_env (unit_next_state\<lparr>ns_use_bias := True\<rparr>)
         (Tensor 1 [[5]], [], Fields []) (Some False))
     = unit_next_state\<lparr>ns_use_bias := True\<rparr>"
    using build_bias_shape [where st = "unit_next_state\<lparr>ns_use_bias := True\<rparr>"
        and env = eager_env and x = "Tensor 1 [[5]]" and m = "[]" and ctx = "Fields []"
        and training = "Some False"]
    by (simp add: unit_next_state_def)
  ultimately show ?thesis by simp
qed

section \<open>Dropout and the training flag\<close>

lemma aggregator_convolve_inference:
  "aggregator_convolve env conv x broadcast pool False
     = aggregator_convolve env' conv x broadcast pool False"
  by (cases x) (simp_all add: aggregator_convolve_def)

lemma pooling_convolve_inference:
  "pooling_convolve env conv x broadcast pool False
     = pooling_convolve env' conv x broadcast pool False"
  by (cases x) (simp_all add: pooling_convolve_def)

lemma call_inference:
  "call env st (x, m, Fields kv) (Some False) = call env' st (x, m, Fields kv) (Some False)"
  by (simp add: call_def py_truth_def)

lemma gcn_call_ignores_training:
  "gcn_call env layer graph node_set_nm training = gcn_call env layer graph node_set_nm training'"
  by (simp add: gcn_call_def)

text \<open>
  C6. The two convolutions and the combiner pass their \<open>training\<close> flag to the dropout
  layer, so that with \<open>training=False\<close> the result does not depend on the environment
  (the three lemmas above). \<open>GCNGraphSAGENodeSetUpdate.call\<close> takes the flag and calls
  the dropout layer without it: with \<open>training=False\<close> and an ambient training mode,
  the sender and self states are dropped out and the result changes.
\<close>

theorem gcn_call_dropout_follows_ambient_mode:
  "gcn_call (eager_env\<lparr>learning_phase := True\<rparr>) (unit_gcn (1 / 2) True) two_node_graph ''n''
       (Some False)
     = Inr [(HIDDEN_STATE, Tensor 1 [[0], [0]])]
   \<and> gcn_call eager_env (unit_gcn (1 / 2) True) two_node_graph ''n'' (Some False)
     = Inr [(HIDDEN_STATE, Tensor 1 [[4], [6]])]"
proof -
  have up: "[0..<2] = [0, 1]" by (simp add: upt_rec)
  have r2: "replicate 2 (1::real) = [1, 1]" by (simp add: numeral_2_eq_2)
  show ?thesis
    by (simp add: gcn_call_def gcn_reduce_def gcn_edge_step_def gcn_self_loop_def unit_gcn_def
        two_node_graph_def eager_env_def dict_get_def Dropout_def dense_def wf_tensor_def
        vec_mat_def map_tensor_def broadcast_node_to_edges_def pool_edges_to_node_def
        reduce_rows_def rows_at_def vsum_def vadd_def zeros_def edge_total_size_def
        ones_column_def ones_vector_def squeeze_def add_n_def tensor_add_def shape_def
        squeezed_add_n_def divide_no_nan_def div_no_nan_def up r2)
qed

section \<open>GCNGraphSAGENodeSetUpdate on a node set of one node\<close>

text \<open>
  C3. Under \<open>reduce_type="mean"\<close> the summed contributions are to be divided by the
  total in-degree of each node, a node of in-degree zero getting the zero vector and no
  error. For a node set of exactly one node, \<open>tf.squeeze\<close> turns the pooled in-degree
  of shape \<open>[1, 1]\<close> into a scalar, which cannot be sliced along a first axis (and
  cannot be added to the \<open>tf.ones(1)\<close> of the self loop): the call fails, here for a
  node without incoming edges.
\<close>

theorem gcn_call_fails_on_single_node:
  "gcn_call env (unit_gcn 0 False) one_node_graph ''n'' training = Inl OpShapeError
   \<and> gcn_call env (unit_gcn 0 True) one_node_graph ''n'' training = Inl OpShapeError"
  by (simp add: gcn_call_def gcn_reduce_def gcn_edge_step_def gcn_self_loop_def unit_gcn_def
      one_node_graph_def dict_get_def Dropout_def dense_def wf_tensor_def
      vec_mat_def broadcast_node_to_edges_def pool_edges_to_node_def
      reduce_rows_def rows_at_def vsum_def vadd_def zeros_def edge_total_size_def
      ones_column_def ones_vector_def squeeze_def add_n_def tensor_add_def shape_def
      squeezed_add_n_def)

section \<open>ResidualNextState\<close>

lemma layer_init_err: "layer_init nm kw = Inl e \<Longrightarrow> e = ArgumentTypeError"
  by (auto simp: layer_init_def bind_eq_Inl split: if_splits
      elim: as_str.elims as_bool.elims)

lemma activations_get_err: "activations_get env a = Inl e \<Longrightarrow> e = UnknownActivation"
  by (cases a) (auto split: option.splits)

lemma residual_init_no_shape_error:
  "residual_init env block act nm kwargs \<noteq> Inl ResidualShapeMismatch"
proof
  assume "residual_init env block act nm kwargs = Inl ResidualShapeMismatch"
  then show False
    by (auto simp: residual_init_def bind_eq_Inl split: activation_arg.splits
        dest: layer_init_err activations_get_err elim: as_str.elims)
qed

lemma map_tensor_ident [simp]: "map_tensor (\<lambda>x. x) t = t"
  by (cases t) (simp add: map_tensor_def)

text \<open>
  C5. When the first input is a feature dict without the configured skip connection
  feature name, the call fails with the \<open>KeyError\<close>. When the residual block returns a
  tensor whose shape is not that of the skip feature, the call fails with the shape
  error; the constructor never does. Otherwise the activation (the identity when none is
  configured) is applied to the sum of the block output and the skip feature.
\<close>

theorem residual_call_contract:
  "(map_of kv (rs_skip_connection_feature_name st) = None \<longrightarrow>
      residual_call st (Dict kv, inputs1, inputs2) = Inl SkipFeatureKeyError)
   \<and> (skip_connection st self_input = Inr skip
        \<and> concat_last (flatten self_input @ flatten inputs1 @ flatten inputs2) = Inr net
        \<and> rs_residual_block st net = Inr delta \<longrightarrow>
      residual_call st (self_input, inputs1, inputs2) =
        (if shape skip \<noteq> shape delta then Inl ResidualShapeMismatch
         else rs_activation st (Tensor (ncols delta) (map2 vadd (rows delta) (rows skip)))))
   \<and> residual_init env block act nm kwargs \<noteq> Inl ResidualShapeMismatch
   \<and> (residual_init env block (ActivationId VNone) nm kwargs = Inr st0 \<longrightarrow>
        rs_activation st0 t = Inr t)"
proof (intro conjI impI)
  assume "map_of kv (rs_skip_connection_feature_name st) = None"
  then show "residual_call st (Dict kv, inputs1, inputs2) = Inl SkipFeatureKeyError"
    by (simp add: residual_call_def skip_connection_def)
next
  assume "skip_connection st self_input = Inr skip
        \<and> concat_last (flatten self_input @ flatten inputs1 @ flatten inputs2) = Inr net
        \<and> rs_residual_block st net = Inr delta"
  then show "residual_call st (self_input, inputs1, inputs2) =
        (if shape skip \<noteq> shape delta then Inl ResidualShapeMismatch
         else rs_activation st (Tensor (ncols delta) (map2 vadd (rows delta) (rows skip))))"
    by (simp add: residual_call_def is_compatible_with_def tensor_add_def)
next
  show "residual_init env block act nm kwargs \<noteq> Inl ResidualShapeMismatch"
    by (rule residual_init_no_shape_error)
next
  assume "residual_init env block (ActivationId VNone) nm kwargs = Inr st0"
  then show "rs_activation st0 t = Inr t"
    by (auto simp: residual_init_def bind_eq_Inr)
qed


theorem residual_call_contract_witness:
  "residual_call (residual_with first_column)
       (Dict [(''other'', Leaf (Tensor 1 [[1]]))], Dict [], Dict [])
     = Inl SkipFeatureKeyError
   \<and> residual_call (residual_with doubled) (Leaf (Tensor 1 [[1]]), Dict [], Dict [])
     = Inl ResidualShapeMismatch
   \<and> residual_call (residual_with first_column)
       (Dict [(DEFAULT_STATE_NAME, Leaf (Tensor 1 [[3]]))],
        Dict [(''e'', Leaf (Tensor 1 [[1]]))], Dict [])
     = Inr (Tensor 1 [[6]])
   \<and> residual_init eager_env doubled (ActivationId VNone) (VStr DEFAULT_STATE_NAME) []
     \<noteq> Inl ResidualShapeMismatch"
proof -
  have "residual_call (residual_with first_column)
       (Dict [(''other'', Leaf (Tensor 1 [[1]]))], Dict [], Dict [])
     = Inl SkipFeatureKeyError"
    using residual_call_contract [where st = "residual_with first_column"
        and kv = "[(''other'', Leaf (Tensor 1 [[1]]))]" and ?inputs1.0 = "Dict []"
        and ?inputs2.0 = "Dict []"]
    by (simp add: residual_with_def DEFAULT_STATE_NAME_def)
  moreover have "residual_call (residual_with doubled) (Leaf (Tensor 1 [[1]]), Dict [], Dict [])
     = Inl ResidualShapeMismatch"
    using residual_call_contract [where st = "residual_with doubled"
        and self_input = "Leaf (Tensor 1 [[1]])" and ?inputs1.0 = "Dict []"
        and ?inputs2.0 = "Dict []" and skip = "Tensor 1 [[1]]" and net = "Tensor 1 [[1]]"
        and delta = "Tensor 2 [[1, 1]]"]
    by (simp add: residual_with_def skip_connection_def concat_last_def doubled_def shape_def)
  moreover have "residual_call (residual_with first_column)
       (Dict [(DEFAULT_STATE_NAME, Leaf (Tensor 1 [[3]]))],
        Dict [(''e'', Leaf (Tensor 1 [[1]]))], Dict [])
     = Inr (Tensor 1 [[6]])"
    using residual_call_contract [where st = "residual_with first_column"
        and self_input = "Dict [(DEFAULT_STATE_NAME, Leaf (Tensor 1 [[3]]))]"
        and ?inputs1.0 = "Dict [(''e'', Leaf (Tensor 1 [[1]]))]"
        and ?inputs2.0 = "Dict []" and skip = "Tensor 1 [[3]]" and net = "Tensor 2 [[3, 1]]"
        and delta = "Tensor 1 [[3]]"]
    by (simp add: residual_with_def skip_connection_def concat_last_def concat_pair_def
        first_column_def shape_def vadd_def map_tensor_def relu_def)
  moreover have "residual_init eager_env doubled (ActivationId VNone)
       (VStr DEFAULT_STATE_NAME) [] \<noteq> Inl ResidualShapeMismatch"
    using residual_call_contract [where env = eager_env and block = doubled
        and act = "ActivationId VNone" and nm = "VStr DEFAULT_STATE_NAME" and kwargs = "[]"]
    by simp
  ultimately show ?thesis by simp
qed

section \<open>Configuration round trips\<close>

lemma layer_roundtrip:
  "layer_init nm (layer_get_config b) = Inr b"
  by (cases b) (simp add: layer_init_def layer_get_config_def rest_kwargs_def arg_or_def)

lemma next_state_roundtrip:
  "\<exists>cfg. next_state_get_config st = Inr cfg
     \<and> next_state_init env (ns_self_kernel st) cfg
         = Inr (st\<lparr>ns_bias_term := None, ns_built := False\<rparr>)"
proof -
  let ?explicit = "[(''units'', VNat (ns_units st)),
        (''use_bias'', VBool (ns_use_bias st)),
        (''dropout_rate'', VReal (ns_dropout_rate st)),
        (''feature_name'', VStr (ns_feature_name st)),
        (''l2_normalize'', VBool (ns_l2_normalize st)),
        (''combine_type'', VStr (ns_combine_type st)),
        (''activation'', VCallable (ns_activation st))]"
  let ?cfg = "?explicit @ layer_get_config (ns_base st)"
  have g: "next_state_get_config st = Inr ?cfg"
    by (simp add: next_state_get_config_def dict_merge_def layer_get_config_def)
  have rest: "rest_kwargs next_state_named ?cfg = layer_get_config (ns_base st)"
    by (simp add: rest_kwargs_def next_state_named_def layer_get_config_def)
  have "next_state_init env (ns_self_kernel st) ?cfg
      = Inr (st\<lparr>ns_bias_term := None, ns_built := False\<rparr>)"
    unfolding next_state_init_def rest layer_roundtrip
    by (cases st) (simp add: arg_required_def arg_or_def)
  with g show ?thesis by blast
qed


lemma aggregator_roundtrip:
  "\<exists>cfg. aggregator_get_config conv = Inr cfg
     \<and> aggregator_init (ac_transform_neighbor_kernel conv) cfg = Inr conv"
proof -
  let ?cfg = "[(''receiver_tag'', VTag (ac_receiver_tag conv)),
      (''sender_node_feature'', VStr (ac_sender_node_feature conv))]
      @ layer_get_config (ac_base conv)
      @ [(''units'', VNat (ac_units conv)),
         (''dropout_rate'', VReal (ac_dropout_rate conv)),
         (''reduce_type'', VStr (ac_reduce_type conv))]"
  have g: "aggregator_get_config conv = Inr ?cfg"
    by (simp add: aggregator_get_config_def conv_base_get_config_def dict_pop_def
        dict_merge_def layer_get_config_def)
  have rest: "rest_kwargs aggregator_named ?cfg = layer_get_config (ac_base conv)"
    by (simp add: rest_kwargs_def aggregator_named_def layer_get_config_def)
  have nm: "setdefault_name d (layer_get_config b) = layer_get_config b" for d b
    by (simp add: setdefault_name_def layer_get_config_def)
  have base: "conv_base_init (layer_get_config b) = Inr b" for b
    by (simp add: conv_base_init_def layer_roundtrip) (simp add: layer_get_config_def)
  have "aggregator_init (ac_transform_neighbor_kernel conv) ?cfg = Inr conv"
    unfolding aggregator_init_def rest nm Let_def base
    by (cases conv)
      (simp add: arg_required_def arg_or_def check_conv_features_def layer_get_config_def)
  with g show ?thesis by blast
qed

lemma pooling_roundtrip:
  "\<exists>cfg. pooling_get_config conv = Inr cfg
     \<and> pooling_init env (pc_pooling_kernel conv) (pc_pooling_bias conv)
           (pc_transform_neighbor_kernel conv) cfg = Inr conv"
proof -
  let ?cfg = "[(''receiver_tag'', VTag (pc_receiver_tag conv)),
      (''sender_node_feature'', VStr (pc_sender_node_feature conv))]
      @ layer_get_config (pc_base conv)
      @ [(''activation'', VCallable (pc_activation conv)),
         (''units'', VNat (pc_units conv)),
         (''hidden_units'', VNat (pc_hidden_units conv)),
         (''dropout_rate'', VReal (pc_dropout_rate conv)),
         (''use_bias'', VBool (pc_use_bias conv)),
         (''reduce_type'', VStr (pc_reduce_type conv))]"
  have g: "pooling_get_config conv = Inr ?cfg"
    by (simp add: pooling_get_config_def conv_base_get_config_def dict_pop_def
        dict_merge_def layer_get_config_def)
  have rest: "rest_kwargs pooling_named ?cfg = layer_get_config (pc_base conv)"
    by (simp add: rest_kwargs_def pooling_named_def layer_get_config_def)
  have nm: "setdefault_name d (layer_get_config b) = layer_get_config b" for d b
    by (simp add: setdefault_name_def layer_get_config_def)
  have base: "conv_base_init (layer_get_config b) = Inr b" for b
    by (simp add: conv_base_init_def layer_roundtrip) (simp add: layer_get_config_def)
  have "pooling_init env (pc_pooling_kernel conv) (pc_pooling_bias conv)
           (pc_transform_neighbor_kernel conv) ?cfg = Inr conv"
    unfolding pooling_init_def rest nm Let_def base
    by (cases conv)
      (simp add: arg_required_def arg_or_def check_conv_features_def layer_get_config_def)
  with g show ?thesis by blast
qed

lemma gcn_roundtrip:
  "\<exists>cfg. gcn_get_config layer = Inr cfg
     \<and> gcn_init env edge_kernel node_kernel cfg
         = Inr (layer\<lparr>
             gcn_transform_edge_fn_dict :=
               (if \<not> gcn_share_weights layer
                then fold (\<lambda>nm d. AList.update nm (edge_kernel nm) d)
                       (gcn_edge_set_names layer) []
                else []),
             gcn_node_transform_fn :=
               (if gcn_add_self_loop layer \<or> gcn_share_weights layer
                then Some node_kernel else None),
             gcn_bias_term :=
               (if gcn_use_bias layer then Some (zeros (gcn_units layer)) else None)\<rparr>)"
proof -
  let ?cfg = "layer_get_config (gcn_base layer)
      @ [(''edge_set_names'', VStrs (gcn_edge_set_names layer)),
        (''receiver_tag'', VTag (gcn_receiver_tag layer)),
        (''reduce_type'', VStr (gcn_reduce_type layer)),
        (''self_node_feature'', VStr (gcn_self_node_feature layer)),
        (''sender_node_feature'', VStr (gcn_sender_node_feature layer)),
        (''units'', VNat (gcn_units layer)),
        (''dropout_rate'', VReal (gcn_dropout_rate layer)),
        (''activation'', VCallable (gcn_activation layer)),
        (''use_bias'', VBool (gcn_use_bias layer)),
        (''share_weights'', VBool (gcn_share_weights layer)),
        (''add_self_loop'', VBool (gcn_add_self_loop layer))]"
  have g: "gcn_get_config layer = Inr ?cfg"
    by (simp add: gcn_get_config_def dict_merge_def layer_get_config_def)
  have rest: "rest_kwargs gcn_named ?cfg = layer_get_config (gcn_base layer)"
    by (simp add: rest_kwargs_def gcn_named_def layer_get_config_def)
  have nm: "setdefault_name d (layer_get_config b) = layer_get_config b" for d b
    by (simp add: setdefault_name_def layer_get_config_def)
  have "gcn_init env edge_kernel node_kernel ?cfg = Inr (layer\<lparr>
             gcn_transform_edge_fn_dict :=
               (if \<not> gcn_share_weights layer
                then fold (\<lambda>nm d. AList.update nm (edge_kernel nm) d)
                       (gcn_edge_set_names layer) []
                else []),
             gcn_node_transform_fn :=
               (if gcn_add_self_loop layer \<or> gcn_share_weights layer
                then Some node_kernel else None),
             gcn_bias_term :=
               (if gcn_use_bias layer then Some (zeros (gcn_units layer)) else None)\<rparr>)"
    unfolding gcn_init_def rest nm layer_roundtrip
    by (cases layer) (simp add: arg_required_def arg_or_def layer_get_config_def)
  with g show ?thesis by blast
qed

text \<open>
  C9. For each of the four layers, \<open>get_config\<close> succeeds and the constructor, called
  on the returned config, gives back a layer with every constructor argument as it was
  (\<open>units\<close>, \<open>hidden_units\<close>, \<open>reduce_type\<close>, \<open>dropout_rate\<close>, \<open>use_bias\<close>,
  \<open>combine_type\<close>, \<open>l2_normalize\<close>, the feature names, \<open>receiver_tag\<close>,
  \<open>activation\<close>, \<open>share_weights\<close>, \<open>add_self_loop\<close>, \<open>edge_set_names\<close> and the
  arguments of the base layer); only the weights are those of a new layer.
\<close>

theorem config_roundtrip:
  "(\<exists>cfg. aggregator_get_config aconv = Inr cfg
      \<and> aggregator_init (ac_transform_neighbor_kernel aconv) cfg = Inr aconv)
   \<and> (\<exists>cfg. pooling_get_config pconv = Inr cfg
      \<and> pooling_init env (pc_pooling_kernel pconv) (pc_pooling_bias pconv)
            (pc_transform_neighbor_kernel pconv) cfg = Inr pconv)
   \<and> (\<exists>cfg. gcn_get_config layer = Inr cfg
      \<and> gcn_init env edge_kernel node_kernel cfg
          = Inr (layer\<lparr>
              gcn_transform_edge_fn_dict :=
                (if \<not> gcn_share_weights layer
                 then fold (\<lambda>nm d. AList.update nm (edge_kernel nm) d)
                        (gcn_edge_set_names layer) []
                 else []),
              gcn_node_transform_fn :=
                (if gcn_add_self_loop layer \<or> gcn_share_weights layer
                 then Some node_kernel else None),
              gcn_bias_term :=
                (if gcn_use_bias layer then Some (zeros (gcn_units layer)) else None)\<rparr>))
   \<and> (\<exists>cfg. next_state_get_config st = Inr cfg
      \<and> next_state_init env (ns_self_kernel st) cfg
          = Inr (st\<lparr>ns_bias_term := None, ns_built := False\<rparr>))"
  using aggregator_roundtrip pooling_roundtrip gcn_roundtrip next_state_roundtrip
  by (intro conjI)

theorem config_roundtrip_witness:
  "(\<exists>cfg. aggregator_get_config unit_aggregator = Inr cfg
      \<and> aggregator_init [[1]] cfg = Inr unit_aggregator)
   \<and> (\<exists>cfg. pooling_get_config unit_pooling = Inr cfg
      \<and> pooling_init eager_env [[1, 1]] [0, 0] [[1], [1]] cfg = Inr unit_pooling)
   \<and> (\<exists>cfg. gcn_get_config (unit_gcn 0 True) = Inr cfg
      \<and> gcn_init eager_env (\<lambda>nm. [[1]]) [[1]] cfg = Inr (unit_gcn 0 True))
   \<and> (\<exists>cfg. next_state_get_config unit_next_state = Inr cfg
      \<and> next_state_init eager_env [[1]] cfg
          = Inr (unit_next_state\<lparr>ns_built := False\<rparr>))"
  using config_roundtrip [of unit_aggregator unit_pooling eager_env "unit_gcn 0 True"
      "\<lambda>nm. [[1]]" "[[1]]" unit_next_state]
  by (simp add: unit_aggregator_def unit_pooling_def unit_gcn_def unit_next_state_def)

section \<open>GraphSAGEGraphUpdate\<close>

lemma defaultdict_store_keys:
  "fst ` set (defaultdict_store d n e c) = insert n (fst ` set d)"
  by (simp add: defaultdict_store_def dom_update)

lemma defaultdict_store_map_of:
  "map_of (defaultdict_store d n e c) n' =
     (if n' = n
      then Some (AList.update e c (case map_of d n of None \<Rightarrow> [] | Some inner \<Rightarrow> inner))
      else map_of d n')"
  by (simp add: defaultdict_store_def update_conv')

lemma edge_loop_keys:
  assumes "callback_edge_loop env iw gu spec acc = Inr d"
  shows "fst ` set d = fst ` set acc
     \<union> {n \<in> set (gu_node_set_names gu).
          \<exists>p \<in> set spec. spec_node_set_name (snd p) (gu_receiver_tag gu) = n}"
  using assms
proof (induction spec arbitrary: acc)
  case Nil
  then show ?case by simp
next
  case (Cons p spec)
  obtain e s where p: "p = (e, s)" by (cases p)
  show ?case
  proof (cases "spec_node_set_name s (gu_receiver_tag gu) \<in> set (gu_node_set_names gu)")
    case True
    with Cons.prems p obtain c where
      "callback_edge_loop env iw gu spec
         (defaultdict_store acc (spec_node_set_name s (gu_receiver_tag gu)) e c) = Inr d"
      by (auto simp: Let_def bind_eq_Inr)
    from Cons.IH [OF this] True p show ?thesis
      by (auto simp: defaultdict_store_keys)
  next
    case False
    with Cons.prems p have "callback_edge_loop env iw gu spec acc = Inr d"
      by (simp add: Let_def)
    from Cons.IH [OF this] False p show ?thesis by auto
  qed
qed

lemma edge_loop_inner_keys:
  assumes "callback_edge_loop env iw gu spec acc = Inr d"
  shows "fst ` set (case map_of d n of None \<Rightarrow> [] | Some inner \<Rightarrow> inner)
     = fst ` set (case map_of acc n of None \<Rightarrow> [] | Some inner \<Rightarrow> inner)
       \<union> {e. n \<in> set (gu_node_set_names gu)
              \<and> (\<exists>s. (e, s) \<in> set spec \<and> spec_node_set_name s (gu_receiver_tag gu) = n)}"
  using assms
proof (induction spec arbitrary: acc)
  case Nil
  then show ?case by simp
next
  case (Cons p spec)
  obtain e s where p: "p = (e, s)" by (cases p)
  show ?case
  proof (cases "spec_node_set_name s (gu_receiver_tag gu) \<in> set (gu_node_set_names gu)")
    case True
    with Cons.prems p obtain c where
      "callback_edge_loop env iw gu spec
         (defaultdict_store acc (spec_node_set_name s (gu_receiver_tag gu)) e c) = Inr d"
      by (auto simp: Let_def bind_eq_Inr)
    from Cons.IH [OF this] True p show ?thesis
      by (auto simp: defaultdict_store_map_of dom_update split: if_splits)
  next
    case False
    with Cons.prems p have "callback_edge_loop env iw gu spec acc = Inr d"
      by (simp add: Let_def)
    from Cons.IH [OF this] False p show ?thesis by auto
  qed
qed

lemma node_loop_entries:
  assumes "callback_node_loop env iw gu d = Inr upds"
  shows "map fst upds = map fst d
     \<and> (\<forall>n upd. map_of upds n = Some upd \<longrightarrow>
          (\<exists>inner. map_of d n = Some inner \<and> edge_set_inputs upd = inner))"
  using assms
proof (induction d arbitrary: upds)
  case Nil
  then show ?case by simp
next
  case (Cons p d)
  obtain n inner where p: "p = (n, inner)" by (cases p)
  from Cons.prems p obtain upd rest where
    u: "make_node_set_update env iw gu n inner = Inr upd"
    and r: "callback_node_loop env iw gu d = Inr rest"
    and upds: "upds = (n, upd) # rest"
    by (auto simp: bind_eq_Inr)
  from u have "edge_set_inputs upd = inner"
    by (auto simp: make_node_set_update_def bind_eq_Inr)
  with Cons.IH [OF r] p upds show ?case by auto
qed

lemma edge_loop_unlisted:
  assumes "\<forall>p \<in> set spec. spec_node_set_name (snd p) (gu_receiver_tag gu) \<noteq> n"
  shows "callback_edge_loop env iw (gu\<lparr>gu_node_set_names := n # gu_node_set_names gu\<rparr>) spec acc
     = callback_edge_loop env iw gu spec acc"
  using assms
proof (induction spec arbitrary: acc)
  case Nil
  then show ?case by simp
next
  case (Cons p spec)
  obtain e s where p: "p = (e, s)" by (cases p)
  have mk: "make_conv env iw (gu\<lparr>gu_node_set_names := n # gu_node_set_names gu\<rparr>) e
      = make_conv env iw gu e"
    by (simp add: make_conv_def)
  from Cons p mk show ?case
    by (auto simp: Let_def cong: if_cong)
qed

lemma node_loop_names:
  "callback_node_loop env iw (gu\<lparr>gu_node_set_names := names\<rparr>) d
     = callback_node_loop env iw gu d"
  by (induction d) (auto simp: make_node_set_update_def)

lemma graph_update_keeps:
  assumes "graph_update_call env updates graph training nss = Inr nss'"
    and "map_of updates n = None"
  shows "map_of nss' n = map_of nss n"
  using assms
proof (induction nss arbitrary: nss')
  case Nil
  then show ?case by simp
next
  case (Cons p nss)
  obtain nm ns where p: "p = (nm, ns)" by (cases p)
  from Cons.prems(1) p obtain ns' rest where
    h: "(case map_of updates nm of None \<Rightarrow> Inr ns
         | Some upd \<Rightarrow>
             bind (node_set_update_call env upd graph nm training) (\<lambda>new_features.
             Inr (ns\<lparr>features :=
                    fold (\<lambda>p fs. AList.update (fst p) (snd p) fs) new_features
                      (features ns)\<rparr>))) = Inr ns'"
    and r: "graph_update_call env updates graph training nss = Inr rest"
    and n': "nss' = (nm, ns') # rest"
    by (auto simp: bind_eq_Inr)
  show ?case
  proof (cases "nm = n")
    case True
    with h Cons.prems(2) have "ns' = ns" by simp
    with True p n' show ?thesis by simp
  next
    case False
    with Cons.IH [OF r Cons.prems(2)] p n' show ?thesis by simp
  qed
qed


text \<open>
  C10. When the callback returns, the node sets with an update are exactly those of
  \<open>node_set_names\<close> that are the receiver endpoint of at least one edge set of the
  schema, each with the convolutions of exactly its incoming edge sets. A listed node set
  that no edge set is received by changes nothing: the callback returns what it returns
  without it, no update and no combiner is made for it, no error is raised for it, and a
  graph update applying the returned updates keeps that node set as it is.
\<close>

theorem callback_updates_receivers_only:
  "(GraphUpdateCallback env iw gu spec = Inr updates \<longrightarrow>
      fst ` set updates
        = {n \<in> set (gu_node_set_names gu).
            \<exists>p \<in> set spec. spec_node_set_name (snd p) (gu_receiver_tag gu) = n}
      \<and> (\<forall>n upd. map_of updates n = Some upd \<longrightarrow>
            fst ` set (edge_set_inputs upd)
              = {e. \<exists>s. (e, s) \<in> set spec
                     \<and> spec_node_set_name s (gu_receiver_tag gu) = n}))
   \<and> ((\<forall>p \<in> set spec. spec_node_set_name (snd p) (gu_receiver_tag gu) \<noteq> lonely) \<longrightarrow>
      GraphUpdateCallback env iw (gu\<lparr>gu_node_set_names := lonely # gu_node_set_names gu\<rparr>) spec
        = GraphUpdateCallback env iw gu spec
      \<and> (GraphUpdateCallback env iw gu spec = Inr updates \<longrightarrow>
           map_of updates lonely = None
           \<and> (graph_update_call env updates graph training (node_sets graph) = Inr nss \<longrightarrow>
                map_of nss lonely = map_of (node_sets graph) lonely)))"
proof (intro conjI impI)
  assume ok: "GraphUpdateCallback env iw gu spec = Inr updates"
  then obtain d where
    d: "callback_edge_loop env iw gu spec [] = Inr d"
    and u: "callback_node_loop env iw gu d = Inr updates"
    by (auto simp: GraphUpdateCallback_def bind_eq_Inr split: if_splits)
  note nl = node_loop_entries [OF u]
  have "fst ` set updates = fst ` set d"
    using nl by (metis set_map)
  with edge_loop_keys [OF d]
  show keys: "fst ` set updates
        = {n \<in> set (gu_node_set_names gu).
            \<exists>p \<in> set spec. spec_node_set_name (snd p) (gu_receiver_tag gu) = n}"
    by simp
  show "\<forall>n upd. map_of updates n = Some upd \<longrightarrow>
            fst ` set (edge_set_inputs upd)
              = {e. \<exists>s. (e, s) \<in> set spec
                     \<and> spec_node_set_name s (gu_receiver_tag gu) = n}"
  proof (intro allI impI)
    fix n upd assume m: "map_of updates n = Some upd"
    then have "n \<in> fst ` set updates" by (metis map_of_eq_None_iff option.distinct(1))
    with keys have listed: "n \<in> set (gu_node_set_names gu)" by simp
    from m nl have "map_of d n = Some (edge_set_inputs upd)" by auto
    with edge_loop_inner_keys [OF d, of n] listed
    show "fst ` set (edge_set_inputs upd)
              = {e. \<exists>s. (e, s) \<in> set spec
                     \<and> spec_node_set_name s (gu_receiver_tag gu) = n}"
      by simp
  qed
next
  assume none: "\<forall>p \<in> set spec. spec_node_set_name (snd p) (gu_receiver_tag gu) \<noteq> lonely"
  show "GraphUpdateCallback env iw (gu\<lparr>gu_node_set_names := lonely # gu_node_set_names gu\<rparr>) spec
        = GraphUpdateCallback env iw gu spec"
    by (simp add: GraphUpdateCallback_def edge_loop_unlisted [OF none] node_loop_names
        cong: if_cong)
next
  assume none: "\<forall>p \<in> set spec. spec_node_set_name (snd p) (gu_receiver_tag gu) \<noteq> lonely"
    and ok: "GraphUpdateCallback env iw gu spec = Inr updates"
  from ok obtain d where
    d: "callback_edge_loop env iw gu spec [] = Inr d"
    and u: "callback_node_loop env iw gu d = Inr updates"
    by (auto simp: GraphUpdateCallback_def bind_eq_Inr split: if_splits)
  have "fst ` set updates = fst ` set d"
    using node_loop_entries [OF u] by (metis set_map)
  with edge_loop_keys [OF d] none have "lonely \<notin> fst ` set updates" by auto
  then show absent: "map_of updates lonely = None" by (simp add: map_of_eq_None_iff)
  assume "graph_update_call env updates graph training (node_sets graph) = Inr nss"
  from graph_update_keeps [OF this absent]
  show "map_of nss lonely = map_of (node_sets graph) lonely" .
qed

lemma example_callback_returns:
  "\<exists>updates. GraphUpdateCallback eager_env unit_weights example_graph_update example_spec
     = Inr updates"
  by (simp add: GraphUpdateCallback_def example_graph_update_def example_spec_def
      make_conv_def dict_merge_def aggregator_init_def aggregator_named_def arg_required_def
      arg_or_def rest_kwargs_def setdefault_name_def check_conv_features_def
      conv_base_init_def layer_init_def defaultdict_store_def make_node_set_update_def
      next_state_init_def next_state_named_def eager_env_def HIDDEN_STATE_def)


theorem callback_updates_receivers_only_witness:
  "\<exists>updates. GraphUpdateCallback eager_env unit_weights example_graph_update example_spec
       = Inr updates
     \<and> fst ` set updates = {''a'', ''b''} \<and> map_of updates ''lonely'' = None"
proof -
  from example_callback_returns obtain updates where
    ok: "GraphUpdateCallback eager_env unit_weights example_graph_update example_spec
       = Inr updates" ..
  note inst = callback_updates_receivers_only [of eager_env unit_weights example_graph_update
      example_spec updates "''lonely''"]
  have "fst ` set updates = {''a'', ''b''}"
    using inst ok by (auto simp: example_graph_update_def example_spec_def)
  moreover have "map_of updates ''lonely'' = None"
    using inst ok by (simp add: example_graph_update_def example_spec_def)
  ultimately show ?thesis using ok by blast
qed

section \<open>GCNGraphSAGENodeSetUpdate: the mean over a node set of more than one node\<close>

lemma vsum_ones:
  "vsum 1 (rows_at idx (replicate (length idx) [1]) v) = [real (count_list idx v)]"
proof -
  have "rows_at idx (replicate (length idx) [1::real]) v = replicate (count_list idx v) [1]"
  proof -
    have "\<And>n. length idx = n \<Longrightarrow>
        map snd (filter (\<lambda>p. fst p = v) (zip idx (replicate n [1::real])))
          = replicate (count_list idx v) [1]"
    proof (induction idx)
      case Nil
      then show ?case by simp
    next
      case (Cons i idx)
      then show ?case by (cases n) auto
    qed
    then show ?thesis by (simp add: rows_at_def)
  qed
  moreover have "foldr vadd (replicate k [1]) (zeros 1) = [real k]" for k
    by (induction k) (simp_all add: vadd_def zeros_def)
  ultimately show ?thesis by (simp add: vsum_def)
qed

lemma pool_ones_Inr:
  assumes "pool_edges_to_node graph nm tag ''sum'' (ones_column (edge_total_size e)) = Inr d"
    and "map_of (edge_sets graph) nm = Some e"
    and "map_of (node_sets graph) (node_set_name e tag) = Some receiver"
  shows "d = Tensor 1 (map (\<lambda>v. [real (incident_edges graph tag nm v)])
                        [0..<total_size receiver])"
proof -
  from assms have len: "length (endpoint_index e tag) = edge_total_size e"
    by (auto simp: pool_edges_to_node_def dict_get_def reduce_rows_def ones_column_def
        split: if_splits)
  with assms show ?thesis
    using vsum_ones [of "endpoint_index e tag"]
    by (auto simp: pool_edges_to_node_def dict_get_def reduce_rows_def ones_column_def
        incident_edges_def split: if_splits)
qed

lemma squeeze_column:
  "n \<noteq> 1 \<Longrightarrow> squeeze (Tensor 1 (map (\<lambda>v. [f v]) [0..<n])) = SVector (map f [0..<n])"
  by (simp add: squeeze_def comp_def)


lemma pool_rows:
  assumes "pool_edges_to_node graph nm tag reduce_type x = Inr p"
    and "map_of (edge_sets graph) nm = Some e"
    and "map_of (node_sets graph) (node_set_name e tag) = Some receiver"
  shows "length (rows p) = total_size receiver"
  using assms
  by (auto simp: pool_edges_to_node_def dict_get_def split: if_splits option.splits)

lemma gcn_edge_step_mean:
  assumes "gcn_edge_step env layer graph nm e (P, D) = Inr (P', D')"
    and "gcn_reduce_type layer = ''mean''"
    and "map_of (node_sets graph) nm = Some receiver"
    and "total_size receiver \<noteq> 1"
  shows "\<exists>p. P' = P @ [p] \<and> length (rows p) = total_size receiver
     \<and> D' = D @ [SVector (map (\<lambda>v. real (incident_edges graph (gcn_receiver_tag layer) e v))
                              [0..<total_size receiver])]"
proof -
  let ?tag = "gcn_receiver_tag layer"
  from assms(1) obtain es where es: "map_of (edge_sets graph) e = Some es"
    by (auto simp: gcn_edge_step_def dict_get_def bind_eq_Inr split: option.splits)
  from assms(1) es have nm: "nm = node_set_name es ?tag"
    by (auto simp: gcn_edge_step_def dict_get_def split: if_splits)
  from assms(1,2) es nm obtain b p d where
    p: "pool_edges_to_node graph e ?tag ''sum'' b = Inr p"
    and d: "pool_edges_to_node graph e ?tag ''sum'' (ones_column (edge_total_size es)) = Inr d"
    and P': "P' = P @ [p]" and D': "D' = D @ [squeeze d]"
    by (auto simp: gcn_edge_step_def dict_get_def bind_eq_Inr split: if_splits)
  have r: "map_of (node_sets graph) (node_set_name es ?tag) = Some receiver"
    using assms(3) nm by simp
  have "squeeze d = SVector (map (\<lambda>v. real (incident_edges graph ?tag e v))
                              [0..<total_size receiver])"
    unfolding pool_ones_Inr [OF d es r] using assms(4) by (rule squeeze_column)
  with P' D' pool_rows [OF p es r] show ?thesis by simp
qed

lemma gcn_edge_loop_mean:
  assumes "gcn_edge_loop env layer graph nm names (P, D) = Inr (P', D')"
    and "gcn_reduce_type layer = ''mean''"
    and "map_of (node_sets graph) nm = Some receiver"
    and "total_size receiver \<noteq> 1"
  shows "(\<exists>ps. P' = P @ ps \<and> length ps = length names
            \<and> list_all (\<lambda>p. length (rows p) = total_size receiver) ps)
     \<and> D' = D @ map (\<lambda>e. SVector (map (\<lambda>v. real (incident_edges graph
                                          (gcn_receiver_tag layer) e v))
                                   [0..<total_size receiver])) names"
  using assms(1)
proof (induction names arbitrary: P D)
  case Nil
  then show ?case by simp
next
  case (Cons e names)
  from Cons.prems obtain P1 D1 where
    step: "gcn_edge_step env layer graph nm e (P, D) = Inr (P1, D1)"
    and rest: "gcn_edge_loop env layer graph nm names (P1, D1) = Inr (P', D')"
    by (auto simp: bind_eq_Inr)
  from gcn_edge_step_mean [OF step assms(2,3,4)] obtain p where
    p: "P1 = P @ [p]" "length (rows p) = total_size receiver"
    and d: "D1 = D @ [SVector (map (\<lambda>v. real (incident_edges graph (gcn_receiver_tag layer) e v))
                              [0..<total_size receiver])]"
    by blast
  from Cons.IH [OF rest] obtain ps where
    ps: "P' = P1 @ ps" "length ps = length names"
      "list_all (\<lambda>p. length (rows p) = total_size receiver) ps"
    and D': "D' = D1 @ map (\<lambda>e. SVector (map (\<lambda>v. real (incident_edges graph
                                          (gcn_receiver_tag layer) e v))
                                   [0..<total_size receiver])) names"
    by blast
  have "P' = P @ (p # ps) \<and> length (p # ps) = length (e # names)
      \<and> list_all (\<lambda>p. length (rows p) = total_size receiver) (p # ps)"
    using p ps by simp
  then show ?case using d D' by auto
qed

lemma squeezed_add_n_from_vectors:
  "squeezed_add_n_from (SVector (map f [0..<n])) (map (\<lambda>g. SVector (map g [0..<n])) gs)
     = Inr (SVector (map (\<lambda>v. f v + sum_list (map (\<lambda>g. g v) gs)) [0..<n]))"
proof (induction gs arbitrary: f)
  case Nil
  then show ?case by simp
next
  case (Cons g gs)
  have "vadd (map f [0..<n]) (map g [0..<n]) = map (\<lambda>v. f v + g v) [0..<n]"
    by (simp add: vadd_def map2_map_same)
  with Cons [of "\<lambda>v. f v + g v"] show ?case by (simp add: add.assoc)
qed

lemma squeezed_add_n_vectors:
  "gs \<noteq> [] \<Longrightarrow> squeezed_add_n (map (\<lambda>g. SVector (map g [0..<n])) gs)
     = Inr (SVector (map (\<lambda>v. sum_list (map (\<lambda>g. g v) gs)) [0..<n]))"
  by (cases gs) (simp_all add: squeezed_add_n_def squeezed_add_n_from_vectors)

lemma add_n_from_rows:
  "add_n_from a ts = Inr s \<Longrightarrow> length (rows s) = length (rows a)"
  by (induction ts arbitrary: a) (auto simp: bind_eq_Inr dest: tensor_add_Inr(3))

lemma divide_no_nan_column:
  assumes "length (rows x) = n"
  shows "divide_no_nan x (Tensor 1 (map (\<lambda>v. [d v]) [0..<n]))
     = Inr (Tensor (ncols x)
             (map (\<lambda>v. map (\<lambda>a. div_no_nan a (d v)) (rows x ! v)) [0..<n]))"
proof -
  have "map2 (\<lambda>r c. map (\<lambda>a. div_no_nan a (hd c)) r) (rows x) (map (\<lambda>v. [d v]) [0..<n])
      = map (\<lambda>v. map (\<lambda>a. div_no_nan a (d v)) (rows x ! v)) [0..<n]"
    using assms by (auto intro!: nth_equalityI)
  with assms show ?thesis by (simp add: divide_no_nan_def)
qed


text \<open>
  For a node set of any size but 1 and at least one configured edge set, a call that
  returns under \<open>reduce_type="mean"\<close> has divided the sum of the contributions, row by
  row, by the total in-degree of the node, and a node of in-degree zero gets zeros.
\<close>

lemma gcn_mean_over_in_degree:
  assumes ok: "gcn_reduce env layer graph nm = Inr result"
    and mean: "gcn_reduce_type layer = ''mean''"
    and ne: "gcn_edge_set_names layer \<noteq> []"
    and r: "map_of (node_sets graph) nm = Some receiver"
    and n1: "total_size receiver \<noteq> 1"
  shows "\<exists>acc P D summed.
      gcn_edge_loop env layer graph nm (gcn_edge_set_names layer) ([], []) = Inr acc
    \<and> gcn_self_loop env layer receiver acc = Inr (P, D)
    \<and> add_n P = Inr summed
    \<and> length (rows summed) = total_size receiver
    \<and> result = Tensor (ncols summed)
        (map (\<lambda>v. map (\<lambda>a. div_no_nan a (real (total_in_degree layer graph v)))
                    (rows summed ! v))
           [0..<total_size receiver])"
proof -
  let ?n = "total_size receiver"
  let ?names = "gcn_edge_set_names layer"
  let ?inc = "\<lambda>e v. real (incident_edges graph (gcn_receiver_tag layer) e v)"
  from ok mean r obtain acc P D summed tot col where
    loop: "gcn_edge_loop env layer graph nm ?names ([], []) = Inr acc"
    and self: "gcn_self_loop env layer receiver acc = Inr (P, D)"
    and summed: "add_n P = Inr summed"
    and tot: "squeezed_add_n D = Inr tot"
    and col: "slice_newaxis tot = Inr col"
    and res: "divide_no_nan summed col = Inr result"
    by (auto simp: gcn_reduce_def dict_get_def bind_eq_Inr split: prod.splits)
  obtain P0 D0 where acc: "acc = (P0, D0)" by (cases acc)
  from gcn_edge_loop_mean [OF loop [unfolded acc] mean r n1]
  have P0: "length P0 = length ?names" "list_all (\<lambda>p. length (rows p) = ?n) P0"
    and D0: "D0 = map (\<lambda>e. SVector (map (?inc e) [0..<?n])) ?names"
    by auto
  let ?gs = "map ?inc ?names @ (if gcn_add_self_loop layer then [\<lambda>v. 1] else [])"
  have ones: "ones_vector ?n = SVector (map (\<lambda>v. 1) [0..<?n])"
    by (simp add: ones_vector_def map_replicate_const)
  from self acc mean have PD: "(\<exists>ps. P = P0 @ ps)"
    "D = D0 @ (if gcn_add_self_loop layer then [ones_vector ?n] else [])"
    by (auto simp: gcn_self_loop_def bind_eq_Inr split: if_splits)
  have D: "D = map (\<lambda>g. SVector (map g [0..<?n])) ?gs"
    using PD(2) D0 ones by (simp add: comp_def)
  have gs: "?gs \<noteq> []" using ne by simp
  have real_sum: "sum_list (map (\<lambda>e. real (f e)) es) = real (sum_list (map f es))"
    for f :: "string \<Rightarrow> nat" and es
    by (induction es) simp_all
  have deg: "sum_list (map (\<lambda>g. g v) ?gs) = real (total_in_degree layer graph v)" for v
    by (simp add: total_in_degree_def comp_def real_sum)
  have "squeezed_add_n D
      = Inr (SVector (map (\<lambda>v. real (total_in_degree layer graph v)) [0..<?n]))"
    unfolding D squeezed_add_n_vectors [OF gs] deg ..
  with tot have tot': "tot = SVector (map (\<lambda>v. real (total_in_degree layer graph v)) [0..<?n])"
    by simp
  from col have col': "col = Tensor 1 (map (\<lambda>v. [real (total_in_degree layer graph v)]) [0..<?n])"
    unfolding tot' by (simp add: comp_def)
  from P0 ne obtain p ps0 where p: "P0 = p # ps0" "length (rows p) = ?n"
    by (cases P0) auto
  with PD(1) obtain ps where "P = p # ps" by auto
  with summed have "add_n_from p ps = Inr summed" by (simp add: add_n_def)
  from add_n_from_rows [OF this] p(2) have rows: "length (rows summed) = ?n" by simp
  from res have "result = Tensor (ncols summed)
        (map (\<lambda>v. map (\<lambda>a. div_no_nan a (real (total_in_degree layer graph v)))
                    (rows summed ! v)) [0..<?n])"
    unfolding col' divide_no_nan_column [OF rows] by simp
  with loop self summed rows show ?thesis by blast
qed

lemma gcn_mean_zero_in_degree:
  "total_in_degree layer graph v = 0 \<Longrightarrow>
     map (\<lambda>a. div_no_nan a (real (total_in_degree layer graph v))) row
       = replicate (length row) 0"
  by (simp add: div_no_nan_def map_replicate_const)

end
